theory Spec2Isabelle
  imports Complex_Main "HOL-Library.Log_Nat"
begin

section \<open>The RevBot memory server: data model\<close>

text \<open>
  The embedding follows the class \<open>RevBotMemoryServer\<close> (the MCP memory server listed in
  \<open>README-HUMAN.md\<close>). A JavaScript \<open>number\<close> is modelled as a rational, which covers the
  finite doubles; \<open>NaN\<close> and the infinities are outside the model. The additions that
  accumulate amounts and the subtraction that gives the daily profit round to the nearest
  double, as IEEE 754 binary64 arithmetic does (\<open>js_add\<close>, \<open>js_sub\<close>). The doubling in
  the scale rule is exact in binary floating point; the quotients of the analytics report
  are written as exact quotients. Identifiers are the strings the code stores. Free-form
  payloads (\<open>any\<close>, \<open>Record<string, any>\<close>) are carried opaquely as
  their JSON text. An optional field or argument (\<open>x?: T\<close>, a property that may be
  \<open>undefined\<close>) is an \<open>option\<close>.

  Several interfaces share field names (\<open>id\<close>, \<open>timestamp\<close>, \<open>status\<close>, ...); a record
  field that would clash carries a short prefix naming its interface (\<open>s_\<close> Service,
  \<open>t_\<close> Transaction, \<open>d_\<close> Decision, \<open>o_\<close> MarketOpportunity, \<open>c_\<close> ConversationTurn,
  \<open>td_\<close> TechnicalDiscovery, \<open>b_\<close> Blocker, \<open>m_\<close> ProgressMilestone, \<open>bs_\<close> BusinessState,
  \<open>cu_\<close> Customer).
\<close>

type_synonym number = rat
type_synonym ident = string
type_synonym json = string

datatype service_status = Active | Paused | Killed | Scaling
datatype outcome = Approved | Denied | Pending | Auto_approved
datatype level = Low | Medium | High
datatype severity = Sev_low | Sev_medium | Sev_high | Sev_critical
datatype context_type =
  Ctx_planning | Ctx_implementation | Ctx_debugging | Ctx_analysis | Ctx_decision
datatype discovery_type =
  Code_exists | Configuration_needed | Dependency_ready | Service_built | Blocker_found_disc
datatype blocker_type = Technical | Dependency | Configuration | Access | Knowledge_gap
datatype blocker_status = Identified | Investigating | Resolved | Escalated
datatype milestone_type = Task_started | Task_completed | Checkpoint_reached | Goal_achieved
datatype opportunity_status = Discovered | Analyzing | Implementing | Deployed | Failed

record risk_metrics =
  daily_spend :: number
  service_failures :: number
  customer_complaints :: number

record BusinessState =
  bs_id :: ident
  bs_timestamp :: number
  total_revenue :: number
  active_services :: nat
  pending_decisions :: "json list"
  current_priorities :: "string list"
  session_summary :: string
  optimization_strategies :: "json list"
  bs_risk_metrics :: risk_metrics

record extracted_entities =
  tasks_mentioned :: "string list"
  technologies_discussed :: "string list"
  decisions_made :: "string list"
  blockers_identified :: "string list"

record ConversationTurn =
  c_id :: ident
  c_session_id :: ident
  c_timestamp :: number
  user_input :: string
  ai_response :: string
  c_context_type :: context_type
  c_extracted_entities :: extracted_entities
  importance_score :: number

record TechnicalDiscovery =
  td_id :: ident
  td_timestamp :: number
  td_discovery_type :: discovery_type
  td_title :: string
  td_description :: string
  file_path :: "string option"
  impact_level :: severity
  actionable_insights :: "string list"
  related_conversation_turn_id :: "ident option"

record Blocker =
  b_id :: ident
  b_timestamp :: number
  b_title :: string
  b_description :: string
  b_blocker_type :: blocker_type
  b_severity :: severity
  b_status :: blocker_status
  resolution_steps :: "string list"
  resolution_summary :: "string option"

record ProgressMilestone =
  m_id :: ident
  m_timestamp :: number
  m_milestone_type :: milestone_type
  m_title :: string
  m_description :: string
  completion_percentage :: number
  next_steps :: "string list"

record performance_metrics =
  uptime_percentage :: number
  response_time_ms :: number
  error_rate :: number
  customer_satisfaction :: number

record scaling_config =
  auto_scale :: bool
  max_daily_spend :: number
  kill_threshold :: number

record Service =
  s_id :: ident
  s_name :: string
  s_type :: string
  s_status :: service_status
  s_created_at :: number
  daily_revenue :: number
  daily_costs :: number
  customer_count :: number
  s_performance_metrics :: performance_metrics
  s_scaling_config :: scaling_config
  s_updated_at :: number

record Transaction =
  t_id :: ident
  t_service_id :: ident
  amount :: number
  currency :: string
  t_customer_id :: "ident option"
  t_timestamp :: number
  stripe_transaction_id :: "string option"
  t_metadata :: json

record impact_metrics =
  im_revenue_impact :: number
  im_risk_level :: level
  im_confidence_score :: number

record Decision =
  d_id :: ident
  d_timestamp :: number
  decision_type :: string
  d_context :: string
  reasoning :: string
  d_outcome :: outcome
  revenue_impact :: "number option"
  risk_level :: "level option"
  confidence_score :: "number option"
  d_impact_metrics :: impact_metrics

record MarketOpportunity =
  o_id :: ident
  opportunity_type :: string
  market_size :: "number option"
  competition_level :: "level option"
  profit_potential :: "number option"
  implementation_effort :: "level option"
  discovery_source :: "string option"
  analysis_data :: json
  o_status :: opportunity_status
  o_created_at :: number

record Customer =
  cu_id :: ident
  email :: "string option"
  first_transaction :: number
  total_spent :: number
  service_usage :: json
  satisfaction_score :: number
  churn_risk :: number
  cu_created_at :: number
  cu_updated_at :: number

record SessionMetadata =
  current_session_id :: ident
  session_start :: number
  last_activity :: number
  auto_save_enabled :: bool

record RevBotData =
  business_states :: "BusinessState list"
  services :: "Service list"
  transactions :: "Transaction list"
  decisions :: "Decision list"
  market_opportunities :: "MarketOpportunity list"
  customers :: "Customer list"
  conversation_turns :: "ConversationTurn list"
  technical_discoveries :: "TechnicalDiscovery list"
  blockers :: "Blocker list"
  progress_milestones :: "ProgressMilestone list"
  session_metadata :: SessionMetadata

section \<open>The process and its surroundings\<close>

text \<open>
  The file \<open>data/revbot-data.json\<close> is in one of three states: absent, present with a
  payload that cannot be read or parsed (\<open>readFileSync\<close> or \<open>JSON.parse\<close> throws), or present
  with the JSON image of a store. \<open>writable\<close> says whether \<open>fs.writeFileSync\<close> succeeds; when
  it does not, it throws inside \<open>saveData\<close>'s \<open>try\<close>.
\<close>

datatype disk = NoFile | Corrupt | Image RevBotData

record world =
  data :: RevBotData
  disk :: disk
  writable :: bool
  lastAutoSave :: number

text \<open>
  What an operation reads from outside the process: \<open>now\<close> is the value of \<open>Date.now()\<close>
  (one operation is taken to observe one instant), \<open>today_start\<close> the value of
  \<open>new Date().setHours(0, 0, 0, 0)\<close> (local midnight), \<open>uuid k\<close> the result of the
  \<open>k\<close>-th call of \<open>uuidv4()\<close> within the operation, and \<open>fmt\<close> the rendering of a number
  inside a template literal.
\<close>

record env =
  now :: number
  today_start :: number
  uuid :: "nat \<Rightarrow> ident"
  fmt :: "number \<Rightarrow> string"

datatype error = Service_not_found ident | Blocker_not_found ident

subsection \<open>JavaScript idioms\<close>

text \<open>\<open>x || d\<close> on an optional number: \<open>undefined\<close> and \<open>0\<close> are falsy.\<close>

definition num_or :: "number option \<Rightarrow> number \<Rightarrow> number" where
  "num_or x d = (case x of None \<Rightarrow> d | Some v \<Rightarrow> if v = 0 then d else v)"

text \<open>\<open>x || d\<close> on an optional string: \<open>undefined\<close> and the empty string are falsy.\<close>

definition str_or :: "string option \<Rightarrow> string \<Rightarrow> string" where
  "str_or x d = (case x of None \<Rightarrow> d | Some v \<Rightarrow> if v = [] then d else v)"

text \<open>\<open>x || d\<close> on an optional value that is truthy whenever it is present.\<close>

definition val_or :: "'a option \<Rightarrow> 'a \<Rightarrow> 'a" where
  "val_or x d = (case x of None \<Rightarrow> d | Some v \<Rightarrow> v)"

text \<open>Truthiness of an optional number and of an optional string.\<close>

definition truthy_num :: "number option \<Rightarrow> bool" where
  "truthy_num x = (case x of None \<Rightarrow> False | Some v \<Rightarrow> v \<noteq> 0)"

definition truthy_str :: "string option \<Rightarrow> bool" where
  "truthy_str x = (case x of None \<Rightarrow> False | Some v \<Rightarrow> v \<noteq> [])"

text \<open>\<open>Array.prototype.findIndex\<close>: the first index whose element satisfies the test.\<close>

fun findIndex :: "('a \<Rightarrow> bool) \<Rightarrow> 'a list \<Rightarrow> nat option" where
  "findIndex P [] = None"
| "findIndex P (x # xs) = (if P x then Some 0 else map_option Suc (findIndex P xs))"

text \<open>
  Double-precision arithmetic. \<open>round_double\<close> maps a rational to the nearest double,
  ties to the even significand: \<open>binary_exponent a\<close> is the \<open>e\<close> with
  \<open>2 ^ e \<le> a < 2 ^ (e + 1)\<close>, the spacing of the doubles around \<open>a\<close> is
  \<open>2 ^ (e - 52)\<close>, and below \<open>2 ^ (- 1022)\<close> (the subnormal range) it stays
  \<open>2 ^ (- 1074)\<close>. A result beyond the largest double, which is an infinity in JavaScript,
  is outside the model. \<open>x + y\<close> and \<open>x - y\<close> on numbers are the exact result, rounded.
\<close>

definition pow2 :: "int \<Rightarrow> number" where
  "pow2 k = (if k \<ge> 0 then 2 ^ nat k else 1 / 2 ^ nat (- k))"

definition binary_exponent :: "number \<Rightarrow> int" where
  "binary_exponent a =
     (let (n, d) = quotient_of a;
          k = bitlen n - bitlen d
      in if pow2 k \<le> a then k else k - 1)"

definition round_half_even :: "number \<Rightarrow> int" where
  "round_half_even r =
     (let f = \<lfloor>r\<rfloor>; d = r - of_int f
      in if d < 1 / 2 then f else if d > 1 / 2 then f + 1 else if even f then f else f + 1)"

definition round_double :: "number \<Rightarrow> number" where
  "round_double q =
     (if q = 0 then 0
      else (let a = \<bar>q\<bar>;
                e = max (binary_exponent a) (- 1022);
                ulp = pow2 (e - 52)
            in sgn q * of_int (round_half_even (a / ulp)) * ulp))"

definition js_add :: "number \<Rightarrow> number \<Rightarrow> number" where
  "js_add x y = round_double (x + y)"

definition js_sub :: "number \<Rightarrow> number \<Rightarrow> number" where
  "js_sub x y = round_double (x - y)"

text \<open>\<open>xs.reduce((sum, t) => sum + f(t), 0)\<close>: the additions are those of doubles.\<close>

definition reduce_sum :: "('a \<Rightarrow> number) \<Rightarrow> 'a list \<Rightarrow> number" where
  "reduce_sum f xs = foldl (\<lambda>sum t. js_add sum (f t)) 0 xs"

text \<open>
  Every addition of the left-to-right sum of \<open>xs\<close>, started at \<open>acc\<close>, is exact: no
  partial sum is rounded.
\<close>

fun sums_exactly :: "number \<Rightarrow> number list \<Rightarrow> bool" where
  "sums_exactly acc [] = True"
| "sums_exactly acc (x # xs) = (js_add acc x = acc + x \<and> sums_exactly (acc + x) xs)"

text \<open>
  \<open>Array.prototype.sort(cmp)\<close>: a stable sort; \<open>x\<close> stays before \<open>y\<close> unless
  \<open>cmp(x, y) > 0\<close>. Written as a stable insertion sort. (Where the comparator is not a
  consistent ordering of the elements ECMAScript leaves the order to the engine.)
\<close>

fun js_insert :: "('a \<Rightarrow> 'a \<Rightarrow> number) \<Rightarrow> 'a \<Rightarrow> 'a list \<Rightarrow> 'a list" where
  "js_insert cmp x [] = [x]"
| "js_insert cmp x (y # ys) = (if cmp x y \<le> 0 then x # y # ys else y # js_insert cmp x ys)"

definition js_sort :: "('a \<Rightarrow> 'a \<Rightarrow> number) \<Rightarrow> 'a list \<Rightarrow> 'a list" where
  "js_sort cmp xs = foldr (js_insert cmp) xs []"

text \<open>
  \<open>xs.slice(0, n)\<close>: \<open>n\<close> is truncated towards zero; a negative \<open>n\<close> counts from the end.
\<close>

definition js_slice0 :: "number \<Rightarrow> 'a list \<Rightarrow> 'a list" where
  "js_slice0 n xs =
     (if n < 0 then take (nat (int (length xs) + \<lceil>n\<rceil>)) xs else take (nat \<lfloor>n\<rfloor>) xs)"

text \<open>
  A division whose divisor is zero has no finite result (JavaScript yields \<open>NaN\<close> or an
  infinity); \<open>None\<close> stands for that.
\<close>

definition js_div :: "number \<Rightarrow> number \<Rightarrow> number option" where
  "js_div x y = (if y = 0 then None else Some (x / y))"

section \<open>Durability: loadData, saveData, the auto-save timer, stop\<close>

definition empty_data :: "env \<Rightarrow> RevBotData" where
  "empty_data e =
     \<lparr> business_states = [], services = [], transactions = [], decisions = [],
       market_opportunities = [], customers = [], conversation_turns = [],
       technical_discoveries = [], blockers = [], progress_milestones = [],
       session_metadata =
         \<lparr> current_session_id = uuid e 0, session_start = now e, last_activity = now e,
           auto_save_enabled = True \<rparr> \<rparr>"

text \<open>
  \<open>saveData\<close>: stamps \<open>last_activity\<close>, then writes the whole store synchronously and
  records the time of the write. A failing write is caught and logged: the stamp stays, the
  file and \<open>lastAutoSave\<close> do not change.
\<close>

definition touch :: "env \<Rightarrow> RevBotData \<Rightarrow> RevBotData" where
  "touch e d = d\<lparr>session_metadata := (session_metadata d)\<lparr>last_activity := now e\<rparr>\<rparr>"

definition saveData :: "env \<Rightarrow> world \<Rightarrow> world" where
  "saveData e w =
     (let d = touch e (data w)
      in if writable w then w\<lparr>data := d, disk := Image d, lastAutoSave := now e\<rparr>
         else w\<lparr>data := d\<rparr>)"

definition loadData :: "env \<Rightarrow> world \<Rightarrow> world" where
  "loadData e w =
     (case disk w of
        Image d \<Rightarrow> w\<lparr>data := d\<rparr>
      | NoFile \<Rightarrow> saveData e (w\<lparr>data := empty_data e\<rparr>)
      | Corrupt \<Rightarrow> w\<lparr>data := empty_data e\<rparr>)"

text \<open>
  One firing of the interval callback of \<open>startAutoSaveTimer\<close> (the interval is 10000 ms):
  it compares the time since the last successful write with 30000 ms.
\<close>

definition autoSaveTick :: "env \<Rightarrow> world \<Rightarrow> world" where
  "autoSaveTick e w =
     (if now e - lastAutoSave w > 30000 \<and> auto_save_enabled (session_metadata (data w))
      then saveData e w else w)"

definition stop :: "env \<Rightarrow> world \<Rightarrow> world" where
  "stop e w = saveData e w"

section \<open>Decisions\<close>

record decision_input =
  di_decision_type :: string
  di_context :: string
  di_reasoning :: string
  di_outcome :: outcome
  di_revenue_impact :: "number option"
  di_risk_level :: "level option"
  di_confidence_score :: "number option"

text \<open>
  \<open>logDecisionInternal\<close>: builds the record (its identifier is the \<open>k\<close>-th fresh one of the
  running operation), pushes it, saves, and returns it.
\<close>

definition logDecisionInternal :: "env \<Rightarrow> nat \<Rightarrow> decision_input \<Rightarrow> world \<Rightarrow> Decision \<times> world" where
  "logDecisionInternal e k decisionInput w =
     (let decisionRecord =
            \<lparr> d_id = uuid e k, d_timestamp = now e,
              decision_type = di_decision_type decisionInput,
              d_context = di_context decisionInput,
              reasoning = di_reasoning decisionInput,
              d_outcome = di_outcome decisionInput,
              revenue_impact = di_revenue_impact decisionInput,
              risk_level = di_risk_level decisionInput,
              confidence_score = di_confidence_score decisionInput,
              d_impact_metrics =
                \<lparr> im_revenue_impact = num_or (di_revenue_impact decisionInput) 0,
                  im_risk_level = val_or (di_risk_level decisionInput) Medium,
                  im_confidence_score = num_or (di_confidence_score decisionInput) (1 / 2) \<rparr> \<rparr>
      in (decisionRecord,
          saveData e (w\<lparr>data := (data w)\<lparr>decisions := decisions (data w) @ [decisionRecord]\<rparr>\<rparr>)))"

record log_decision_args =
  ld_decision_type :: string
  ld_context :: string
  ld_reasoning :: string
  ld_outcome :: "outcome option"
  ld_revenue_impact :: "number option"
  ld_risk_level :: "level option"
  ld_confidence_score :: "number option"

definition logDecision :: "env \<Rightarrow> log_decision_args \<Rightarrow> world \<Rightarrow> world" where
  "logDecision e args w =
     snd (logDecisionInternal e 0
            \<lparr> di_decision_type = ld_decision_type args, di_context = ld_context args,
              di_reasoning = ld_reasoning args, di_outcome = val_or (ld_outcome args) Pending,
              di_revenue_impact = ld_revenue_impact args, di_risk_level = ld_risk_level args,
              di_confidence_score = ld_confidence_score args \<rparr> w)"

section \<open>Services and the auto-scaling rules\<close>

record register_args =
  ra_name :: string
  ra_type :: string
  ra_max_daily_spend :: "number option"
  ra_auto_scale :: "bool option"

definition registerService :: "env \<Rightarrow> register_args \<Rightarrow> world \<Rightarrow> world" where
  "registerService e args w =
     (let service =
            \<lparr> s_id = uuid e 0, s_name = ra_name args, s_type = ra_type args, s_status = Active,
              s_created_at = now e, daily_revenue = 0, daily_costs = 0, customer_count = 0,
              s_performance_metrics =
                \<lparr> uptime_percentage = 100, response_time_ms = 0, error_rate = 0,
                  customer_satisfaction = 5 \<rparr>,
              s_scaling_config =
                \<lparr> auto_scale = (ra_auto_scale args \<noteq> Some False),
                  max_daily_spend = num_or (ra_max_daily_spend args) 100,
                  kill_threshold = - 10 \<rparr>,
              s_updated_at = now e \<rparr>
      in saveData e (w\<lparr>data := (data w)\<lparr>services := services (data w) @ [service]\<rparr>\<rparr>))"

record metrics_args =
  ma_uptime_percentage :: "number option"
  ma_response_time_ms :: "number option"
  ma_error_rate :: "number option"
  ma_customer_satisfaction :: "number option"

record perf_args =
  pa_service_id :: ident
  pa_daily_revenue :: "number option"
  pa_daily_costs :: "number option"
  pa_customer_count :: "number option"
  pa_performance_metrics :: "metrics_args option"

text \<open>\<open>if (v !== undefined) field = v\<close>.\<close>

definition assign_if_defined :: "'a option \<Rightarrow> 'a \<Rightarrow> 'a" where
  "assign_if_defined v old = (case v of None \<Rightarrow> old | Some x \<Rightarrow> x)"

definition apply_metrics :: "metrics_args option \<Rightarrow> performance_metrics \<Rightarrow> performance_metrics" where
  "apply_metrics ms pm =
     (case ms of
        None \<Rightarrow> pm
      | Some metrics \<Rightarrow>
          \<lparr> uptime_percentage = assign_if_defined (ma_uptime_percentage metrics) (uptime_percentage pm),
            response_time_ms = assign_if_defined (ma_response_time_ms metrics) (response_time_ms pm),
            error_rate = assign_if_defined (ma_error_rate metrics) (error_rate pm),
            customer_satisfaction =
              assign_if_defined (ma_customer_satisfaction metrics) (customer_satisfaction pm) \<rparr>)"

text \<open>The service object is mutated in place: the store's array holds the new value at its index.\<close>

definition put_service :: "nat \<Rightarrow> Service \<Rightarrow> world \<Rightarrow> world" where
  "put_service i s w = w\<lparr>data := (data w)\<lparr>services := (services (data w))[i := s]\<rparr>\<rparr>"

definition apply_performance :: "env \<Rightarrow> perf_args \<Rightarrow> Service \<Rightarrow> Service" where
  "apply_performance e args service =
     service
       \<lparr> daily_revenue := assign_if_defined (pa_daily_revenue args) (daily_revenue service),
         daily_costs := assign_if_defined (pa_daily_costs args) (daily_costs service),
         customer_count := assign_if_defined (pa_customer_count args) (customer_count service),
         s_performance_metrics :=
           apply_metrics (pa_performance_metrics args) (s_performance_metrics service),
         s_updated_at := now e \<rparr>"

definition kill_decision :: "env \<Rightarrow> Service \<Rightarrow> number \<Rightarrow> decision_input" where
  "kill_decision e service dailyProfit =
     \<lparr> di_decision_type = ''auto_kill_service'',
       di_context = ''Service '' @ s_name service @ '' killed due to low profitability: $''
                      @ fmt e dailyProfit @ ''/day'',
       di_reasoning = ''Daily profit ($'' @ fmt e dailyProfit @ '') below kill threshold ($''
                        @ fmt e (kill_threshold (s_scaling_config service)) @ '')'',
       di_outcome = Auto_approved,
       di_revenue_impact = Some dailyProfit,
       di_risk_level = Some Low,
       di_confidence_score = Some (9 / 10) \<rparr>"

definition scale_decision :: "env \<Rightarrow> Service \<Rightarrow> number \<Rightarrow> decision_input" where
  "scale_decision e service dailyProfit =
     \<lparr> di_decision_type = ''auto_scale_service'',
       di_context = ''Service '' @ s_name service
                      @ '' marked for scaling due to high profitability: $''
                      @ fmt e dailyProfit @ ''/day'',
       di_reasoning = ''Daily profit ($'' @ fmt e dailyProfit
                        @ '') indicates strong demand and scalability potential'',
       di_outcome = Auto_approved,
       di_revenue_impact = Some (dailyProfit * 2),
       di_risk_level = Some Medium,
       di_confidence_score = Some (7 / 10) \<rparr>"

definition dailyProfit :: "Service \<Rightarrow> number" where
  "dailyProfit service = js_sub (daily_revenue service) (daily_costs service)"

text \<open>The auto-scaling block of \<open>updateServicePerformance\<close>, on the updated service at index \<open>i\<close>.\<close>

definition auto_scaling :: "env \<Rightarrow> nat \<Rightarrow> Service \<Rightarrow> world \<Rightarrow> world" where
  "auto_scaling e i service w =
     (if auto_scale (s_scaling_config service) then
        (if dailyProfit service < kill_threshold (s_scaling_config service) then
           snd (logDecisionInternal e 0 (kill_decision e service (dailyProfit service))
                  (put_service i (service\<lparr>s_status := Killed\<rparr>) w))
         else if dailyProfit service > 50 \<and> s_status service = Active then
           snd (logDecisionInternal e 0 (scale_decision e service (dailyProfit service))
                  (put_service i (service\<lparr>s_status := Scaling\<rparr>) w))
         else put_service i service w)
      else put_service i service w)"

definition updateServicePerformance :: "env \<Rightarrow> perf_args \<Rightarrow> world \<Rightarrow> error + world" where
  "updateServicePerformance e args w =
     (case findIndex (\<lambda>s. s_id s = pa_service_id args) (services (data w)) of
        None \<Rightarrow> Inl (Service_not_found (pa_service_id args))
      | Some serviceIndex \<Rightarrow>
          Inr (saveData e
                 (auto_scaling e serviceIndex
                    (apply_performance e args (services (data w) ! serviceIndex)) w)))"

section \<open>Transactions\<close>

record transaction_args =
  ta_service_id :: ident
  ta_amount :: number
  ta_currency :: "string option"
  ta_customer_id :: "ident option"
  ta_stripe_transaction_id :: "string option"
  ta_metadata :: "json option"

definition todayTransactions :: "env \<Rightarrow> ident \<Rightarrow> Transaction list \<Rightarrow> Transaction list" where
  "todayTransactions e sid ts =
     filter (\<lambda>t. t_service_id t = sid \<and> t_timestamp t \<ge> today_start e) ts"

definition make_transaction :: "env \<Rightarrow> transaction_args \<Rightarrow> Transaction" where
  "make_transaction e args =
     \<lparr> t_id = uuid e 0, t_service_id = ta_service_id args, amount = ta_amount args,
       currency = str_or (ta_currency args) ''USD'',
       t_customer_id = ta_customer_id args, t_timestamp = now e,
       stripe_transaction_id = ta_stripe_transaction_id args,
       t_metadata = val_or (ta_metadata args) ''{}'' \<rparr>"

text \<open>
  \<open>recordTransaction\<close>: pushes the transaction and saves; then, when \<open>find\<close> yields a
  service with the identifier, sets its \<open>daily_revenue\<close> to the sum over the service's
  transactions since local midnight and saves again. A missing service is no error.
\<close>

definition recordTransaction :: "env \<Rightarrow> transaction_args \<Rightarrow> world \<Rightarrow> world" where
  "recordTransaction e args w =
     (let transaction = make_transaction e args;
          w1 = saveData e
                 (w\<lparr>data := (data w)\<lparr>transactions := transactions (data w) @ [transaction]\<rparr>\<rparr>)
      in case findIndex (\<lambda>s. s_id s = ta_service_id args) (services (data w1)) of
           None \<Rightarrow> w1
         | Some i \<Rightarrow>
             (let todayRevenue =
                    reduce_sum amount
                      (todayTransactions e (ta_service_id args) (transactions (data w1)))
              in saveData e
                   (put_service i
                      ((services (data w1) ! i)
                         \<lparr>daily_revenue := todayRevenue, s_updated_at := now e\<rparr>) w1)))"

text \<open>A sequence of \<open>record_transaction\<close> calls, each with what it reads from outside.\<close>

fun record_all :: "(env \<times> transaction_args) list \<Rightarrow> world \<Rightarrow> world" where
  "record_all [] w = w"
| "record_all ((e, args) # calls) w = record_all calls (recordTransaction e args w)"

section \<open>Revenue analytics\<close>

record analytics_args =
  aa_timeframe_days :: "number option"
  aa_service_id :: "ident option"

record service_stats =
  st_service_id :: ident
  transaction_count :: nat
  st_total_revenue :: number
  st_transactions :: "Transaction list"

record enriched_stats = service_stats +
  service_name :: string
  avg_transaction :: "number option"
  daily_average :: "number option"
  revenue_share :: "number option"

record revenue_report =
  rr_timeframe_days :: number
  rr_total_revenue :: number
  total_transactions :: nat
  average_transaction :: "number option"
  rr_daily_average :: "number option"
  by_service :: "enriched_stats list"

text \<open>
  The body of the \<open>forEach\<close> that groups by service: the \<open>Map\<close> keeps its keys in the order
  of their first insertion, so it is an association list that is extended at its end.
\<close>

fun add_to_group :: "Transaction \<Rightarrow> service_stats list \<Rightarrow> service_stats list" where
  "add_to_group t [] =
     [\<lparr> st_service_id = t_service_id t, transaction_count = 0 + 1,
        st_total_revenue = js_add 0 (amount t), st_transactions = [t] \<rparr>]"
| "add_to_group t (stats # rest) =
     (if st_service_id stats = t_service_id t
      then stats\<lparr>transaction_count := transaction_count stats + 1,
                 st_total_revenue := js_add (st_total_revenue stats) (amount t),
                 st_transactions := st_transactions stats @ [t]\<rparr> # rest
      else stats # add_to_group t rest)"

definition enrich :: "Service list \<Rightarrow> number \<Rightarrow> number \<Rightarrow> service_stats \<Rightarrow> enriched_stats" where
  "enrich svcs timeframeDays totalRevenue a =
     service_stats.extend a
       (enriched_stats.fields
          (str_or (map_option s_name (find (\<lambda>s. s_id s = st_service_id a) svcs))
             ''Unknown Service'')
          (js_div (st_total_revenue a) (of_nat (transaction_count a)))
          (js_div (st_total_revenue a) timeframeDays)
          (map_option (\<lambda>x. x * 100) (js_div (st_total_revenue a) totalRevenue)))"

text \<open>
  \<open>getRevenueAnalytics\<close> reads the store and returns the figures its text reports. The
  overview's average is the text \<open>'0'\<close> when there is no transaction.
\<close>

definition getRevenueAnalytics :: "env \<Rightarrow> analytics_args \<Rightarrow> world \<Rightarrow> revenue_report" where
  "getRevenueAnalytics e args w =
     (let timeframeDays = num_or (aa_timeframe_days args) 30;
          cutoffTime = now e - timeframeDays * 24 * 60 * 60 * 1000;
          recent = filter (\<lambda>t. t_timestamp t \<ge> cutoffTime) (transactions (data w));
          txs = (if truthy_str (aa_service_id args)
                 then filter (\<lambda>t. Some (t_service_id t) = aa_service_id args) recent
                 else recent);
          serviceAnalytics = foldl (\<lambda>m t. add_to_group t m) [] txs;
          analytics = js_sort (\<lambda>a b. st_total_revenue b - st_total_revenue a) serviceAnalytics;
          totalRevenue = reduce_sum amount txs;
          totalTransactions = length txs
      in \<lparr> rr_timeframe_days = timeframeDays,
           rr_total_revenue = totalRevenue,
           total_transactions = totalTransactions,
           average_transaction =
             (if totalTransactions > 0 then js_div totalRevenue (of_nat totalTransactions)
              else Some 0),
           rr_daily_average = js_div totalRevenue timeframeDays,
           by_service = map (enrich (services (data w)) timeframeDays totalRevenue) analytics \<rparr>)"

section \<open>Business state snapshots\<close>

record save_state_args =
  sb_session_summary :: string
  sb_current_priorities :: "string list option"
  sb_pending_decisions :: "json list option"
  sb_optimization_strategies :: "json list option"

definition saveBusinessState :: "env \<Rightarrow> save_state_args \<Rightarrow> world \<Rightarrow> world" where
  "saveBusinessState e args w =
     (let todayRevenue =
            reduce_sum amount
              (filter (\<lambda>t. t_timestamp t \<ge> today_start e) (transactions (data w)));
          activeServices = length (filter (\<lambda>s. s_status s = Active) (services (data w)));
          businessState =
            \<lparr> bs_id = uuid e 0, bs_timestamp = now e, total_revenue = todayRevenue,
              active_services = activeServices,
              pending_decisions = val_or (sb_pending_decisions args) [],
              current_priorities = val_or (sb_current_priorities args) [],
              session_summary = sb_session_summary args,
              optimization_strategies = val_or (sb_optimization_strategies args) [],
              bs_risk_metrics =
                \<lparr> daily_spend = 0, service_failures = 0, customer_complaints = 0 \<rparr> \<rparr>
      in saveData e
           (w\<lparr>data := (data w)\<lparr>business_states := business_states (data w) @ [businessState]\<rparr>\<rparr>))"

section \<open>Market opportunities\<close>

record opportunity_args =
  oa_opportunity_type :: string
  oa_market_size :: "number option"
  oa_competition_level :: "level option"
  oa_profit_potential :: "number option"
  oa_implementation_effort :: "level option"
  oa_discovery_source :: "string option"
  oa_analysis_data :: "json option"

definition recordMarketOpportunity :: "env \<Rightarrow> opportunity_args \<Rightarrow> world \<Rightarrow> world" where
  "recordMarketOpportunity e args w =
     (let opportunity =
            \<lparr> o_id = uuid e 0, opportunity_type = oa_opportunity_type args,
              market_size = oa_market_size args,
              competition_level = oa_competition_level args,
              profit_potential = oa_profit_potential args,
              implementation_effort = oa_implementation_effort args,
              discovery_source = oa_discovery_source args,
              analysis_data = val_or (oa_analysis_data args) ''{}'',
              o_status = Discovered, o_created_at = now e \<rparr>
      in saveData e
           (w\<lparr>data := (data w)
                \<lparr>market_opportunities := market_opportunities (data w) @ [opportunity]\<rparr>\<rparr>))"

record get_opportunities_args =
  ga_status :: "opportunity_status option"
  ga_limit :: "number option"

text \<open>
  The comparator handed to \<open>sort\<close>: the difference of the profit potentials when both are
  truthy, the difference of the creation times in every other case.
\<close>

definition opportunity_compare :: "MarketOpportunity \<Rightarrow> MarketOpportunity \<Rightarrow> number" where
  "opportunity_compare a b =
     (case (profit_potential a, profit_potential b) of
        (Some pa, Some pb) \<Rightarrow>
          if pa \<noteq> 0 \<and> pb \<noteq> 0 then pb - pa else o_created_at b - o_created_at a
      | _ \<Rightarrow> o_created_at b - o_created_at a)"

text \<open>
  \<open>getMarketOpportunities\<close> returns the list its text enumerates. \<open>sort\<close> works in place:
  without a status filter the array sorted is the store's own.
\<close>

definition getMarketOpportunities ::
    "get_opportunities_args \<Rightarrow> world \<Rightarrow> MarketOpportunity list \<times> world" where
  "getMarketOpportunities args w =
     (let sorted =
            js_sort opportunity_compare
              (case ga_status args of
                 None \<Rightarrow> market_opportunities (data w)
               | Some st \<Rightarrow> filter (\<lambda>opp. o_status opp = st) (market_opportunities (data w)));
          w' = (case ga_status args of
                  None \<Rightarrow> w\<lparr>data := (data w)\<lparr>market_opportunities := sorted\<rparr>\<rparr>
                | Some st \<Rightarrow> w)
      in (case ga_limit args of
            None \<Rightarrow> sorted
          | Some n \<Rightarrow> if n = 0 then sorted else js_slice0 n sorted,
          w'))"

section \<open>Technical discoveries, blockers, milestones\<close>

record discovery_args =
  da_discovery_type :: discovery_type
  da_title :: string
  da_description :: string
  da_file_path :: "string option"
  da_impact_level :: "severity option"
  da_actionable_insights :: "string list option"
  da_related_conversation_turn_id :: "ident option"

definition logTechnicalDiscovery :: "env \<Rightarrow> nat \<Rightarrow> discovery_args \<Rightarrow> world \<Rightarrow> world" where
  "logTechnicalDiscovery e k args w =
     (let discovery =
            \<lparr> td_id = uuid e k, td_timestamp = now e,
              td_discovery_type = da_discovery_type args, td_title = da_title args,
              td_description = da_description args, file_path = da_file_path args,
              impact_level = val_or (da_impact_level args) Sev_medium,
              actionable_insights = val_or (da_actionable_insights args) [],
              related_conversation_turn_id = da_related_conversation_turn_id args \<rparr>
      in saveData e
           (w\<lparr>data := (data w)
                \<lparr>technical_discoveries := technical_discoveries (data w) @ [discovery]\<rparr>\<rparr>))"

record blocker_args =
  ba_title :: string
  ba_description :: string
  ba_blocker_type :: blocker_type
  ba_severity :: "severity option"
  ba_resolution_steps :: "string list option"

definition logBlocker :: "env \<Rightarrow> nat \<Rightarrow> blocker_args \<Rightarrow> world \<Rightarrow> world" where
  "logBlocker e k args w =
     (let blocker =
            \<lparr> b_id = uuid e k, b_timestamp = now e, b_title = ba_title args,
              b_description = ba_description args, b_blocker_type = ba_blocker_type args,
              b_severity = val_or (ba_severity args) Sev_medium, b_status = Identified,
              resolution_steps = val_or (ba_resolution_steps args) [],
              resolution_summary = None \<rparr>
      in saveData e (w\<lparr>data := (data w)\<lparr>blockers := blockers (data w) @ [blocker]\<rparr>\<rparr>))"

record resolve_args =
  rb_blocker_id :: ident
  rb_resolution_summary :: string

text \<open>
  \<open>resolveBlocker\<close>: \<open>find\<close> yields the first blocker with the identifier, which is then
  mutated in place; a missing blocker throws before anything is changed.
\<close>

definition resolveBlocker :: "env \<Rightarrow> resolve_args \<Rightarrow> world \<Rightarrow> error + world" where
  "resolveBlocker e args w =
     (case findIndex (\<lambda>b. b_id b = rb_blocker_id args) (blockers (data w)) of
        None \<Rightarrow> Inl (Blocker_not_found (rb_blocker_id args))
      | Some i \<Rightarrow>
          Inr (saveData e
                 (w\<lparr>data := (data w)
                      \<lparr>blockers := (blockers (data w))
                         [i := (blockers (data w) ! i)
                                 \<lparr>b_status := Resolved,
                                  resolution_summary := Some (rb_resolution_summary args)\<rparr>]\<rparr>\<rparr>)))"

record milestone_args =
  mi_milestone_type :: milestone_type
  mi_title :: string
  mi_description :: string
  mi_completion_percentage :: "number option"
  mi_next_steps :: "string list option"

definition logProgressMilestone :: "env \<Rightarrow> milestone_args \<Rightarrow> world \<Rightarrow> world" where
  "logProgressMilestone e args w =
     (let milestone =
            \<lparr> m_id = uuid e 0, m_timestamp = now e, m_milestone_type = mi_milestone_type args,
              m_title = mi_title args, m_description = mi_description args,
              completion_percentage = num_or (mi_completion_percentage args) 0,
              next_steps = val_or (mi_next_steps args) [] \<rparr>
      in saveData e
           (w\<lparr>data := (data w)
                \<lparr>progress_milestones := progress_milestones (data w) @ [milestone]\<rparr>\<rparr>))"

section \<open>Conversation logging and the keyword heuristics\<close>

text \<open>
  \<open>toLowerCase\<close> on the ASCII letters (a \<open>char\<close> is a byte; other bytes stay as they are),
  and \<open>String.prototype.includes\<close>.
\<close>

definition to_lower :: "char \<Rightarrow> char" where
  "to_lower c =
     (let n = (of_char c :: nat) in if 65 \<le> n \<and> n \<le> 90 then char_of (n + 32) else c)"

definition toLowerCase :: "string \<Rightarrow> string" where
  "toLowerCase s = map to_lower s"

fun str_includes :: "string \<Rightarrow> string \<Rightarrow> bool" where
  "str_includes [] kw = (kw = [])"
| "str_includes (c # cs) kw = (take (length kw) (c # cs) = kw \<or> str_includes cs kw)"

definition combined_text :: "string \<Rightarrow> string \<Rightarrow> string" where
  "combined_text userInput aiResponse = toLowerCase (userInput @ '' '' @ aiResponse)"

definition taskKeywords :: "string list" where
  "taskKeywords =
     [''implement'', ''build'', ''create'', ''deploy'', ''setup'', ''configure'', ''test'', ''fix'']"

definition techKeywords :: "string list" where
  "techKeywords =
     [''stripe'', ''mcp'', ''server'', ''api'', ''webhook'', ''payment'', ''revbot'', ''nodejs'',
      ''typescript'']"

definition decisionKeywords :: "string list" where
  "decisionKeywords =
     [''decided'', ''choose'', ''selected'', ''approved'', ''skip'', ''use'', ''go with'']"

definition blockerKeywords :: "string list" where
  "blockerKeywords =
     [''error'', ''failed'', ''blocked'', ''issue'', ''problem'', ''cannot'', ''unable'', ''stuck'']"

definition extractKeywords :: "string \<Rightarrow> string list \<Rightarrow> string list" where
  "extractKeywords text keywords = filter (\<lambda>keyword. str_includes text keyword) keywords"

definition extractEntitiesFromConversation :: "string \<Rightarrow> string \<Rightarrow> extracted_entities" where
  "extractEntitiesFromConversation userInput aiResponse =
     (let combined = combined_text userInput aiResponse
      in \<lparr> tasks_mentioned = extractKeywords combined taskKeywords,
           technologies_discussed = extractKeywords combined techKeywords,
           decisions_made = extractKeywords combined decisionKeywords,
           blockers_identified = extractKeywords combined blockerKeywords \<rparr>)"

definition inferContextType :: "string \<Rightarrow> string \<Rightarrow> context_type" where
  "inferContextType userInput aiResponse =
     (let combined = combined_text userInput aiResponse
      in if str_includes combined ''plan'' \<or> str_includes combined ''strategy''
            \<or> str_includes combined ''roadmap'' then Ctx_planning
         else if str_includes combined ''build'' \<or> str_includes combined ''implement''
            \<or> str_includes combined ''deploy'' then Ctx_implementation
         else if str_includes combined ''error'' \<or> str_includes combined ''debug''
            \<or> str_includes combined ''fix'' then Ctx_debugging
         else if str_includes combined ''decide'' \<or> str_includes combined ''choose''
            \<or> str_includes combined ''approve'' then Ctx_decision
         else Ctx_analysis)"

definition calculateImportanceScore :: "string \<Rightarrow> string \<Rightarrow> number" where
  "calculateImportanceScore userInput aiResponse =
     (let combined = combined_text userInput aiResponse;
          score0 = 3 / 10;
          score1 = (if str_includes combined ''critical'' \<or> str_includes combined ''urgent''
                    then score0 + 3 / 10 else score0);
          score2 = (if str_includes combined ''revenue'' \<or> str_includes combined ''payment''
                       \<or> str_includes combined ''money''
                    then score1 + 2 / 10 else score1);
          score3 = (if str_includes combined ''decision'' \<or> str_includes combined ''approve''
                    then score2 + 2 / 10 else score2);
          score4 = (if str_includes combined ''blocker'' \<or> str_includes combined ''error''
                       \<or> str_includes combined ''problem''
                    then score3 + 2 / 10 else score3);
          score5 = (if str_includes combined ''complete'' \<or> str_includes combined ''finished''
                       \<or> str_includes combined ''done''
                    then score4 + 1 / 10 else score4)
      in min score5 1)"

datatype trigger_type = Decision_made | Blocker_found | Milestone_reached | Technical_discovery

text \<open>
  The three \<open>for ... of\<close> loops of \<open>autoCaptureContext\<close>; every iteration draws the next
  fresh identifier.
\<close>

fun log_each_decision :: "env \<Rightarrow> nat \<Rightarrow> string list \<Rightarrow> world \<Rightarrow> world" where
  "log_each_decision e k [] w = w"
| "log_each_decision e k (decision # rest) w =
     log_each_decision e (Suc k) rest
       (snd (logDecisionInternal e k
               \<lparr> di_decision_type = ''conversation_decision'',
                 di_context = ''Decision made in conversation: '' @ decision,
                 di_reasoning = ''Auto-detected from conversation analysis'',
                 di_outcome = Auto_approved,
                 di_revenue_impact = None,
                 di_risk_level = None,
                 di_confidence_score = Some (8 / 10) \<rparr> w))"

fun log_each_blocker :: "env \<Rightarrow> nat \<Rightarrow> string list \<Rightarrow> world \<Rightarrow> world" where
  "log_each_blocker e k [] w = w"
| "log_each_blocker e k (blocker # rest) w =
     log_each_blocker e (Suc k) rest
       (logBlocker e k
          \<lparr> ba_title = blocker,
            ba_description = ''Auto-detected blocker from conversation'',
            ba_blocker_type = Technical,
            ba_severity = Some Sev_medium,
            ba_resolution_steps =
              Some [''Investigate blocker'', ''Find solution'', ''Implement fix''] \<rparr> w)"

fun log_each_technology :: "env \<Rightarrow> nat \<Rightarrow> string list \<Rightarrow> world \<Rightarrow> world" where
  "log_each_technology e k [] w = w"
| "log_each_technology e k (tech # rest) w =
     log_each_technology e (Suc k) rest
       (logTechnicalDiscovery e k
          \<lparr> da_discovery_type = Dependency_ready,
            da_title = tech @ '' technology discussed'',
            da_description = ''Technical discussion about '' @ tech @ '' in conversation'',
            da_file_path = None,
            da_impact_level = Some Sev_medium,
            da_actionable_insights =
              Some [''Review '' @ tech @ '' implementation'', ''Consider '' @ tech @ '' integration''],
            da_related_conversation_turn_id = None \<rparr> w)"

text \<open>
  \<open>autoCaptureContext\<close>: the \<open>switch\<close> on the trigger; \<open>context_data\<close> is the conversation
  turn handed over (or nothing), of which only the extracted entities are read. \<open>k\<close> is the
  number of identifiers the running operation has drawn so far.
\<close>

definition autoCaptureContext ::
    "env \<Rightarrow> nat \<Rightarrow> trigger_type \<Rightarrow> ConversationTurn option \<Rightarrow> world \<Rightarrow> world" where
  "autoCaptureContext e k trigger context_data w =
     (case context_data of
        None \<Rightarrow> w
      | Some turn \<Rightarrow>
          (case trigger of
             Decision_made \<Rightarrow>
               if length (decisions_made (c_extracted_entities turn)) > 0
               then log_each_decision e k (decisions_made (c_extracted_entities turn)) w else w
           | Blocker_found \<Rightarrow>
               if length (blockers_identified (c_extracted_entities turn)) > 0
               then log_each_blocker e k (blockers_identified (c_extracted_entities turn)) w
               else w
           | Technical_discovery \<Rightarrow>
               if length (technologies_discussed (c_extracted_entities turn)) > 0
               then log_each_technology e k (technologies_discussed (c_extracted_entities turn)) w
               else w
           | Milestone_reached \<Rightarrow> w))"

record conversation_args =
  ca_user_input :: string
  ca_ai_response :: string
  ca_context_type :: "context_type option"
  ca_extracted_entities :: "extracted_entities option"
  ca_importance_score :: "number option"

definition make_turn :: "env \<Rightarrow> conversation_args \<Rightarrow> world \<Rightarrow> ConversationTurn" where
  "make_turn e args w =
     \<lparr> c_id = uuid e 0,
       c_session_id = current_session_id (session_metadata (data w)),
       c_timestamp = now e,
       user_input = ca_user_input args,
       ai_response = ca_ai_response args,
       c_context_type =
         val_or (ca_context_type args)
           (inferContextType (ca_user_input args) (ca_ai_response args)),
       c_extracted_entities =
         val_or (ca_extracted_entities args)
           (extractEntitiesFromConversation (ca_user_input args) (ca_ai_response args)),
       importance_score =
         num_or (ca_importance_score args)
           (calculateImportanceScore (ca_user_input args) (ca_ai_response args)) \<rparr>"

text \<open>
  \<open>logConversationTurn\<close>: stores the turn, saves, and hands the turn to
  \<open>autoCaptureContext\<close> with the trigger \<open>'decision_made'\<close>.
\<close>

definition logConversationTurn :: "env \<Rightarrow> conversation_args \<Rightarrow> world \<Rightarrow> world" where
  "logConversationTurn e args w =
     (let conversationTurn = make_turn e args w
      in autoCaptureContext e 1 Decision_made (Some conversationTurn)
           (saveData e
              (w\<lparr>data := (data w)
                   \<lparr>conversation_turns := conversation_turns (data w) @ [conversationTurn]\<rparr>\<rparr>)))"

section \<open>The tool dispatcher\<close>

text \<open>
  The request handler's \<open>switch\<close>, for the tools that write to the store. An \<open>Error\<close> thrown
  by a tool is caught and thrown again as an \<open>McpError\<close> with the code \<open>InternalError\<close>; the
  store is then as the tool left it, which for both throwing tools is untouched.
\<close>

datatype request =
    Save_business_state save_state_args
  | Register_service register_args
  | Update_service_performance perf_args
  | Record_transaction transaction_args
  | Log_decision log_decision_args
  | Record_market_opportunity opportunity_args
  | Log_conversation_turn conversation_args
  | Auto_capture_context trigger_type "ConversationTurn option"
  | Log_technical_discovery discovery_args
  | Log_blocker blocker_args
  | Resolve_blocker resolve_args
  | Log_progress_milestone milestone_args

datatype mcp_error = InternalError error

definition rethrow :: "error + world \<Rightarrow> mcp_error + world" where
  "rethrow r = (case r of Inl err \<Rightarrow> Inl (InternalError err) | Inr w \<Rightarrow> Inr w)"

fun callTool :: "env \<Rightarrow> request \<Rightarrow> world \<Rightarrow> mcp_error + world" where
  "callTool e (Save_business_state args) w = Inr (saveBusinessState e args w)"
| "callTool e (Register_service args) w = Inr (registerService e args w)"
| "callTool e (Update_service_performance args) w = rethrow (updateServicePerformance e args w)"
| "callTool e (Record_transaction args) w = Inr (recordTransaction e args w)"
| "callTool e (Log_decision args) w = Inr (logDecision e args w)"
| "callTool e (Record_market_opportunity args) w = Inr (recordMarketOpportunity e args w)"
| "callTool e (Log_conversation_turn args) w = Inr (logConversationTurn e args w)"
| "callTool e (Auto_capture_context trigger context_data) w =
     Inr (autoCaptureContext e 0 trigger context_data w)"
| "callTool e (Log_technical_discovery args) w = Inr (logTechnicalDiscovery e 0 args w)"
| "callTool e (Log_blocker args) w = Inr (logBlocker e 0 args w)"
| "callTool e (Resolve_blocker args) w = rethrow (resolveBlocker e args w)"
| "callTool e (Log_progress_milestone args) w = Inr (logProgressMilestone e args w)"

section \<open>A running example\<close>

text \<open>
  A small run used to evaluate the operations: the server starts without a data file, one
  service is registered with the default thresholds, and two payments of 2 and 3 arrive.
\<close>

definition demo_env :: "string \<Rightarrow> number \<Rightarrow> env" where
  "demo_env tag t =
     \<lparr> now = t, today_start = 0, uuid = (\<lambda>k. tag @ replicate k CHR ''+''),
       fmt = (\<lambda>n. ''#'') \<rparr>"

definition boot_world :: world where
  "boot_world =
     loadData (demo_env ''session'' 0)
       \<lparr> data = empty_data (demo_env ''init'' 0), disk = NoFile, writable = True,
         lastAutoSave = 0 \<rparr>"

definition demo_registration :: register_args where
  "demo_registration =
     \<lparr> ra_name = ''qr-generator'', ra_type = ''api'', ra_max_daily_spend = Some 100,
       ra_auto_scale = Some True \<rparr>"

definition demo_service_world :: world where
  "demo_service_world = registerService (demo_env ''svc'' 1000) demo_registration boot_world"

definition demo_payment :: "ident \<Rightarrow> number \<Rightarrow> transaction_args" where
  "demo_payment sid a =
     \<lparr> ta_service_id = sid, ta_amount = a, ta_currency = None, ta_customer_id = None,
       ta_stripe_transaction_id = None, ta_metadata = None \<rparr>"

definition demo_update :: "number option \<Rightarrow> number option \<Rightarrow> perf_args" where
  "demo_update revenue costs =
     \<lparr> pa_service_id = ''svc'', pa_daily_revenue = revenue, pa_daily_costs = costs,
       pa_customer_count = None, pa_performance_metrics = None \<rparr>"

definition demo_paid_world :: world where
  "demo_paid_world =
     recordTransaction (demo_env ''tx2'' 3000) (demo_payment ''svc'' 3)
       (recordTransaction (demo_env ''tx1'' 2000) (demo_payment ''svc'' 2) demo_service_world)"

definition demo_calls :: "(env \<times> transaction_args) list" where
  "demo_calls =
     [(demo_env ''tx1'' 2000, demo_payment ''svc'' 2),
      (demo_env ''tx2'' 3000, demo_payment ''svc'' 3)]"

text \<open>
  Two payments of 10 and 20 cents, as the payment webhook hands them over (\<open>amount / 100\<close>):
  the doubles written \<open>0.1\<close> and \<open>0.2\<close>.
\<close>

definition demo_cent_calls :: "(env \<times> transaction_args) list" where
  "demo_cent_calls =
     [(demo_env ''tx1'' 2000, demo_payment ''svc'' (round_double (10 / 100))),
      (demo_env ''tx2'' 3000, demo_payment ''svc'' (round_double (20 / 100)))]"

text \<open>A store as loaded from an image that holds one escalated blocker.\<close>

definition demo_escalated_world :: world where
  "demo_escalated_world =
     boot_world
       \<lparr>data := (data boot_world)
          \<lparr>blockers :=
             [\<lparr> b_id = ''blk'', b_timestamp = 500, b_title = ''stripe key missing'',
                 b_description = ''no access to the billing account'',
                 b_blocker_type = Access, b_severity = Sev_high, b_status = Escalated,
                 resolution_steps = [], resolution_summary = None \<rparr>]\<rparr>\<rparr>"

text \<open>The example store, with the data file damaged behind its back.\<close>

definition demo_corrupt_world :: world where
  "demo_corrupt_world = demo_service_world\<lparr>disk := Corrupt\<rparr>"

text \<open>
  Market opportunities recorded one after the other: two with the same profit potential,
  and one with a profit potential followed by one without.
\<close>

definition demo_opportunity :: "string \<Rightarrow> number option \<Rightarrow> opportunity_args" where
  "demo_opportunity name potential =
     \<lparr> oa_opportunity_type = name, oa_market_size = None, oa_competition_level = None,
       oa_profit_potential = potential, oa_implementation_effort = None,
       oa_discovery_source = None, oa_analysis_data = None \<rparr>"

definition demo_tied_world :: world where
  "demo_tied_world =
     recordMarketOpportunity (demo_env ''newer'' 2000) (demo_opportunity ''url shortener'' (Some 5))
       (recordMarketOpportunity (demo_env ''older'' 1000)
          (demo_opportunity ''pdf converter'' (Some 5)) boot_world)"

definition demo_unknown_world :: world where
  "demo_unknown_world =
     recordMarketOpportunity (demo_env ''unknown'' 2000) (demo_opportunity ''chat bot'' None)
       (recordMarketOpportunity (demo_env ''rich'' 1000)
          (demo_opportunity ''pdf converter'' (Some 100)) boot_world)"

text \<open>An exchange that mentions an error and a decision.\<close>

definition demo_turn :: conversation_args where
  "demo_turn =
     \<lparr> ca_user_input = ''The webhook returns an Error'',
       ca_ai_response = ''We Decided to retry'',
       ca_context_type = None, ca_extracted_entities = None, ca_importance_score = None \<rparr>"

text \<open>The example service after the update "revenue 80, costs 10".\<close>

definition demo_scaling_world :: world where
  "demo_scaling_world =
     (case updateServicePerformance (demo_env ''up1'' 4000) (demo_update (Some 80) (Some 10))
             demo_service_world of
        Inl err \<Rightarrow> demo_service_world
      | Inr w1 \<Rightarrow> w1)"

text \<open>A market opportunity as \<open>recordMarketOpportunity\<close> stores it.\<close>

definition demo_listing :: "string \<Rightarrow> number option \<Rightarrow> number \<Rightarrow> MarketOpportunity" where
  "demo_listing name potential t =
     \<lparr> o_id = name, opportunity_type = name, market_size = None, competition_level = None,
       profit_potential = potential, implementation_effort = None, discovery_source = None,
       analysis_data = ''{}'', o_status = Discovered, o_created_at = t \<rparr>"

section \<open>Shapes of the automatic decisions\<close>

text \<open>What the kill rule's decision record looks like, for a daily profit \<open>p\<close>.\<close>

abbreviation auto_kill_record :: "number \<Rightarrow> Decision \<Rightarrow> bool" where
  "auto_kill_record p d \<equiv>
     decision_type d = ''auto_kill_service'' \<and> d_outcome d = Auto_approved \<and>
     risk_level d = Some Low \<and> confidence_score d = Some (9 / 10) \<and>
     revenue_impact d = Some p \<and>
     d_impact_metrics d =
       \<lparr> im_revenue_impact = p, im_risk_level = Low, im_confidence_score = 9 / 10 \<rparr>"

text \<open>What the scale rule's decision record looks like, for a daily profit \<open>p\<close>.\<close>

abbreviation auto_scale_record :: "number \<Rightarrow> Decision \<Rightarrow> bool" where
  "auto_scale_record p d \<equiv>
     decision_type d = ''auto_scale_service'' \<and> d_outcome d = Auto_approved \<and>
     risk_level d = Some Medium \<and> confidence_score d = Some (7 / 10) \<and>
     revenue_impact d = Some (2 * p) \<and>
     d_impact_metrics d =
       \<lparr> im_revenue_impact = 2 * p, im_risk_level = Medium, im_confidence_score = 7 / 10 \<rparr>"

text \<open>
  The transactions of service \<open>sid\<close> whose timestamp lies in the local day that starts at
  \<open>day_start\<close> and ends before \<open>day_end\<close>.
\<close>

abbreviation transactions_of_day ::
    "ident \<Rightarrow> number \<Rightarrow> number \<Rightarrow> Transaction list \<Rightarrow> Transaction list" where
  "transactions_of_day sid day_start day_end ts \<equiv>
     filter (\<lambda>t. t_service_id t = sid \<and> day_start \<le> t_timestamp t \<and> t_timestamp t < day_end) ts"

section \<open>Basic facts\<close>

lemma findIndex_SomeD:
  "findIndex P xs = Some i \<Longrightarrow> i < length xs \<and> P (xs ! i)"
proof (induction xs arbitrary: i)
  case Nil
  then show ?case by simp
next
  case (Cons x xs)
  then show ?case by (auto split: if_splits)
qed

lemma findIndex_update:
  "findIndex P xs = Some i \<Longrightarrow> P y \<Longrightarrow> findIndex P (xs[i := y]) = Some i"
proof (induction xs arbitrary: i)
  case Nil
  then show ?case by simp
next
  case (Cons x xs)
  then show ?case by (auto split: if_splits)
qed

lemma findIndex_None: "findIndex P xs = None \<longleftrightarrow> (\<forall>x \<in> set xs. \<not> P x)"
  by (induction xs) auto

lemma touch_fields [simp]:
  "business_states (touch e d) = business_states d"
  "services (touch e d) = services d"
  "transactions (touch e d) = transactions d"
  "decisions (touch e d) = decisions d"
  "market_opportunities (touch e d) = market_opportunities d"
  "customers (touch e d) = customers d"
  "conversation_turns (touch e d) = conversation_turns d"
  "technical_discoveries (touch e d) = technical_discoveries d"
  "blockers (touch e d) = blockers d"
  "progress_milestones (touch e d) = progress_milestones d"
  by (simp_all add: touch_def)

lemma touch_touch [simp]: "touch e (touch e' d) = touch e d"
  by (simp add: touch_def)

lemma data_saveData [simp]: "data (saveData e w) = touch e (data w)"
  by (simp add: saveData_def Let_def)

lemma writable_saveData [simp]: "writable (saveData e w) = writable w"
  by (simp add: saveData_def Let_def)

lemma disk_saveData:
  "disk (saveData e w) = (if writable w then Image (touch e (data w)) else disk w)"
  by (simp add: saveData_def Let_def)

lemma put_service_fields [simp]:
  "services (data (put_service i s w)) = (services (data w))[i := s]"
  "decisions (data (put_service i s w)) = decisions (data w)"
  "transactions (data (put_service i s w)) = transactions (data w)"
  "writable (put_service i s w) = writable w"
  by (simp_all add: put_service_def)

lemma logDecisionInternal_decisions [simp]:
  "decisions (data (snd (logDecisionInternal e k inp w))) =
     decisions (data w) @ [fst (logDecisionInternal e k inp w)]"
  by (simp add: logDecisionInternal_def Let_def)

lemma logDecisionInternal_keeps [simp]:
  "services (data (snd (logDecisionInternal e k inp w))) = services (data w)"
  "blockers (data (snd (logDecisionInternal e k inp w))) = blockers (data w)"
  "conversation_turns (data (snd (logDecisionInternal e k inp w))) = conversation_turns (data w)"
  "writable (snd (logDecisionInternal e k inp w)) = writable w"
  by (simp_all add: logDecisionInternal_def Let_def)

lemma kill_decision_record:
  "decision_type (fst (logDecisionInternal e k (kill_decision e s p) w)) = ''auto_kill_service''"
  "d_outcome (fst (logDecisionInternal e k (kill_decision e s p) w)) = Auto_approved"
  "risk_level (fst (logDecisionInternal e k (kill_decision e s p) w)) = Some Low"
  "confidence_score (fst (logDecisionInternal e k (kill_decision e s p) w)) = Some (9 / 10)"
  "revenue_impact (fst (logDecisionInternal e k (kill_decision e s p) w)) = Some p"
  "d_impact_metrics (fst (logDecisionInternal e k (kill_decision e s p) w)) =
     \<lparr> im_revenue_impact = p, im_risk_level = Low, im_confidence_score = 9 / 10 \<rparr>"
  by (simp_all add: logDecisionInternal_def kill_decision_def Let_def num_or_def val_or_def)

lemma scale_decision_record:
  "decision_type (fst (logDecisionInternal e k (scale_decision e s p) w)) = ''auto_scale_service''"
  "d_outcome (fst (logDecisionInternal e k (scale_decision e s p) w)) = Auto_approved"
  "risk_level (fst (logDecisionInternal e k (scale_decision e s p) w)) = Some Medium"
  "confidence_score (fst (logDecisionInternal e k (scale_decision e s p) w)) = Some (7 / 10)"
  "revenue_impact (fst (logDecisionInternal e k (scale_decision e s p) w)) = Some (2 * p)"
  "d_impact_metrics (fst (logDecisionInternal e k (scale_decision e s p) w)) =
     \<lparr> im_revenue_impact = 2 * p, im_risk_level = Medium, im_confidence_score = 7 / 10 \<rparr>"
  by (simp_all add: logDecisionInternal_def scale_decision_def Let_def num_or_def val_or_def)

lemma apply_performance_keeps [simp]:
  "s_id (apply_performance e args s) = s_id s"
  "s_status (apply_performance e args s) = s_status s"
  "s_scaling_config (apply_performance e args s) = s_scaling_config s"
  by (simp_all add: apply_performance_def)

lemma dailyProfit_status [simp]: "dailyProfit (s\<lparr>s_status := st\<rparr>) = dailyProfit s"
  by (simp add: dailyProfit_def)

lemma dailyProfit_resubmitted [simp]:
  "dailyProfit (apply_performance e' args ((apply_performance e args s)\<lparr>s_status := st\<rparr>)) =
     dailyProfit (apply_performance e args s)"
  by (cases "pa_daily_revenue args"; cases "pa_daily_costs args")
     (simp_all add: dailyProfit_def apply_performance_def assign_if_defined_def)

section \<open>The kill rule\<close>

lemma kill_step:
  assumes idx: "findIndex (\<lambda>s. s_id s = pa_service_id args) (services (data w)) = Some i"
    and auto: "auto_scale (s_scaling_config (services (data w) ! i))"
    and low: "dailyProfit (apply_performance e args (services (data w) ! i))
                < kill_threshold (s_scaling_config (services (data w) ! i))"
  shows "updateServicePerformance e args w =
           Inr (saveData e (snd (logDecisionInternal e 0
             (kill_decision e (apply_performance e args (services (data w) ! i))
                (dailyProfit (apply_performance e args (services (data w) ! i))))
             (put_service i ((apply_performance e args (services (data w) ! i))\<lparr>s_status := Killed\<rparr>) w))))"
  using assms by (simp add: updateServicePerformance_def auto_scaling_def)

text \<open>
  Claim C1, as the code has it. For a service with \<open>auto_scale\<close> set, a performance update
  that leaves \<open>daily_revenue - daily_costs\<close> below the service's kill threshold sets the
  status to \<open>killed\<close> and appends exactly one decision of type \<open>auto_kill_service\<close> with
  outcome \<open>auto_approved\<close>, risk \<open>low\<close>, confidence 0.9 and the daily profit as revenue
  impact. The rule does not look at the current status: submitting the same update again
  (at any later instant \<open>e'\<close>) leaves the status \<open>killed\<close> and appends one further such
  decision.
\<close>

theorem kill_rule_fires_on_every_update:
  assumes idx: "findIndex (\<lambda>s. s_id s = pa_service_id args) (services (data w)) = Some i"
    and auto: "auto_scale (s_scaling_config (services (data w) ! i))"
    and low: "dailyProfit (apply_performance e args (services (data w) ! i))
                < kill_threshold (s_scaling_config (services (data w) ! i))"
  shows "\<exists>w1 d1 w2 d2.
           updateServicePerformance e args w = Inr w1 \<and>
           s_status (services (data w1) ! i) = Killed \<and>
           decisions (data w1) = decisions (data w) @ [d1] \<and>
           auto_kill_record (dailyProfit (apply_performance e args (services (data w) ! i))) d1 \<and>
           updateServicePerformance e' args w1 = Inr w2 \<and>
           s_status (services (data w2) ! i) = Killed \<and>
           decisions (data w2) = decisions (data w) @ [d1, d2] \<and>
           auto_kill_record (dailyProfit (apply_performance e args (services (data w) ! i))) d2"
proof -
  let ?s = "apply_performance e args (services (data w) ! i)"
  let ?p = "dailyProfit ?s"
  let ?w1 = "saveData e (snd (logDecisionInternal e 0 (kill_decision e ?s ?p)
               (put_service i (?s\<lparr>s_status := Killed\<rparr>) w)))"
  let ?d1 = "fst (logDecisionInternal e 0 (kill_decision e ?s ?p)
               (put_service i (?s\<lparr>s_status := Killed\<rparr>) w))"
  from idx have len: "i < length (services (data w))"
    and hit: "s_id (services (data w) ! i) = pa_service_id args"
    using findIndex_SomeD by fastforce+
  have first: "updateServicePerformance e args w = Inr ?w1"
    by (rule kill_step [OF idx auto low])
  have svc1: "services (data ?w1) = (services (data w))[i := ?s\<lparr>s_status := Killed\<rparr>]"
    by simp
  have at1: "services (data ?w1) ! i = ?s\<lparr>s_status := Killed\<rparr>"
    using len by (simp add: svc1)
  have dec1: "decisions (data ?w1) = decisions (data w) @ [?d1]"
    by simp
  have idx1: "findIndex (\<lambda>s. s_id s = pa_service_id args) (services (data ?w1)) = Some i"
    unfolding svc1 using idx hit by (intro findIndex_update) simp_all
  have auto1: "auto_scale (s_scaling_config (services (data ?w1) ! i))"
    using auto len by simp
  have low1: "dailyProfit (apply_performance e' args (services (data ?w1) ! i))
                < kill_threshold (s_scaling_config (services (data ?w1) ! i))"
    using low len by simp
  let ?s2 = "apply_performance e' args (services (data ?w1) ! i)"
  let ?w2 = "saveData e' (snd (logDecisionInternal e' 0 (kill_decision e' ?s2 (dailyProfit ?s2))
               (put_service i (?s2\<lparr>s_status := Killed\<rparr>) ?w1)))"
  let ?d2 = "fst (logDecisionInternal e' 0 (kill_decision e' ?s2 (dailyProfit ?s2))
               (put_service i (?s2\<lparr>s_status := Killed\<rparr>) ?w1))"
  have second: "updateServicePerformance e' args ?w1 = Inr ?w2"
    by (rule kill_step [OF idx1 auto1 low1])
  have p2: "dailyProfit ?s2 = ?p"
    using len by simp
  have at2: "s_status (services (data ?w2) ! i) = Killed"
    using len by simp
  have dec2: "decisions (data ?w2) = decisions (data w) @ [?d1, ?d2]"
    by simp
  have k1: "auto_kill_record ?p ?d1"
    by (simp add: kill_decision_record)
  have k2: "auto_kill_record ?p ?d2"
    using len by (simp add: kill_decision_record)
  have s1: "s_status (services (data ?w1) ! i) = Killed"
    using len by simp
  show ?thesis
    using first s1 dec1 k1 second at2 dec2 k2 by blast
qed


text \<open>
  The run of the example: revenue 5 from two payments, costs set to 20, profit -15 below the
  default threshold -10.
\<close>

theorem kill_rule_fires_on_every_update_witness:
  "findIndex (\<lambda>s. s_id s = pa_service_id (demo_update None (Some 20)))
     (services (data demo_paid_world)) = Some 0 \<and>
   auto_scale (s_scaling_config (services (data demo_paid_world) ! 0)) \<and>
   dailyProfit (apply_performance (demo_env ''up1'' 4000) (demo_update None (Some 20))
     (services (data demo_paid_world) ! 0)) = - 15 \<and>
   kill_threshold (s_scaling_config (services (data demo_paid_world) ! 0)) = - 10 \<and>
   (\<exists>w1 d1 w2 d2.
      updateServicePerformance (demo_env ''up1'' 4000) (demo_update None (Some 20))
        demo_paid_world = Inr w1 \<and>
      s_status (services (data w1) ! 0) = Killed \<and>
      decisions (data w1) = decisions (data demo_paid_world) @ [d1] \<and>
      auto_kill_record (- 15) d1 \<and>
      updateServicePerformance (demo_env ''up2'' 5000) (demo_update None (Some 20)) w1 = Inr w2 \<and>
      s_status (services (data w2) ! 0) = Killed \<and>
      decisions (data w2) = decisions (data demo_paid_world) @ [d1, d2] \<and>
      auto_kill_record (- 15) d2)"
proof -
  have idx: "findIndex (\<lambda>s. s_id s = pa_service_id (demo_update None (Some 20)))
      (services (data demo_paid_world)) = Some 0"
    by code_simp
  have auto: "auto_scale (s_scaling_config (services (data demo_paid_world) ! 0))"
    by code_simp
  have p: "dailyProfit (apply_performance (demo_env ''up1'' 4000) (demo_update None (Some 20))
      (services (data demo_paid_world) ! 0)) = - 15"
    by code_simp
  have thr: "kill_threshold (s_scaling_config (services (data demo_paid_world) ! 0)) = - 10"
    by code_simp
  have low: "dailyProfit (apply_performance (demo_env ''up1'' 4000) (demo_update None (Some 20))
      (services (data demo_paid_world) ! 0))
      < kill_threshold (s_scaling_config (services (data demo_paid_world) ! 0))"
    by (simp add: p thr)
  note main = kill_rule_fires_on_every_update
    [OF idx auto low, of "demo_env ''up2'' 5000", unfolded p]
  show ?thesis
    by (intro conjI idx auto p thr main)
qed

text \<open>
  The same run evaluated: after the second, identical update the store holds two
  \<open>auto_kill_service\<close> decisions, so the kill rule is not guarded by the status.
\<close>

theorem resubmitted_kill_logs_again:
  "(case updateServicePerformance (demo_env ''up1'' 4000) (demo_update None (Some 20))
           demo_paid_world of
      Inl err \<Rightarrow> False
    | Inr w1 \<Rightarrow>
        map s_status (services (data w1)) = [Killed] \<and>
        map decision_type (decisions (data w1)) = [''auto_kill_service''] \<and>
        (case updateServicePerformance (demo_env ''up2'' 5000) (demo_update None (Some 20)) w1 of
           Inl err \<Rightarrow> False
         | Inr w2 \<Rightarrow>
             map s_status (services (data w2)) = [Killed] \<and>
             map decision_type (decisions (data w2)) =
               [''auto_kill_service'', ''auto_kill_service''] \<and>
             map revenue_impact (decisions (data w2)) = [Some (- 15), Some (- 15)]))"
  by code_simp

section \<open>The scale rule\<close>

text \<open>
  Claim C4. For a service with \<open>auto_scale\<close> set whose update leaves the daily profit above
  50 and not below the kill threshold: when the current status is \<open>active\<close> the status
  becomes \<open>scaling\<close> and exactly one decision of type \<open>auto_scale_service\<close> with outcome
  \<open>auto_approved\<close>, risk \<open>medium\<close>, confidence 0.7 and revenue impact twice the daily
  profit is appended; in any other status (so for a service that is already \<open>scaling\<close>) the
  rule does not match: the status stays and no decision is appended.
\<close>

theorem scale_rule_matches_active_only:
  assumes idx: "findIndex (\<lambda>s. s_id s = pa_service_id args) (services (data w)) = Some i"
    and auto: "auto_scale (s_scaling_config (services (data w) ! i))"
    and not_low: "\<not> dailyProfit (apply_performance e args (services (data w) ! i))
                    < kill_threshold (s_scaling_config (services (data w) ! i))"
    and high: "dailyProfit (apply_performance e args (services (data w) ! i)) > 50"
  shows "\<exists>w1. updateServicePerformance e args w = Inr w1 \<and>
           (if s_status (services (data w) ! i) = Active
            then s_status (services (data w1) ! i) = Scaling \<and>
                 (\<exists>d. decisions (data w1) = decisions (data w) @ [d] \<and>
                      auto_scale_record
                        (dailyProfit (apply_performance e args (services (data w) ! i))) d)
            else s_status (services (data w1) ! i) = s_status (services (data w) ! i) \<and>
                 decisions (data w1) = decisions (data w))"
proof -
  from idx have len: "i < length (services (data w))"
    using findIndex_SomeD by fastforce
  show ?thesis
  proof (cases "s_status (services (data w) ! i) = Active")
    case True
    with idx auto not_low high len show ?thesis
      by (simp add: updateServicePerformance_def auto_scaling_def scale_decision_record)
  next
    case False
    with idx auto not_low high len show ?thesis
      by (simp add: updateServicePerformance_def auto_scaling_def)
  qed
qed

text \<open>
  The scenario of the specification: revenue 80, costs 10, daily profit 70; the service goes
  from \<open>active\<close> to \<open>scaling\<close> and the decision carries the revenue impact 140. The
  same update submitted again finds the service \<open>scaling\<close> and logs nothing.
\<close>

theorem scale_rule_matches_active_only_witness:
  "findIndex (\<lambda>s. s_id s = pa_service_id (demo_update (Some 80) (Some 10)))
     (services (data demo_service_world)) = Some 0 \<and>
   auto_scale (s_scaling_config (services (data demo_service_world) ! 0)) \<and>
   kill_threshold (s_scaling_config (services (data demo_service_world) ! 0)) = - 10 \<and>
   dailyProfit (apply_performance (demo_env ''up1'' 4000) (demo_update (Some 80) (Some 10))
     (services (data demo_service_world) ! 0)) = 70 \<and>
   s_status (services (data demo_service_world) ! 0) = Active \<and>
   (\<exists>w1 d. updateServicePerformance (demo_env ''up1'' 4000) (demo_update (Some 80) (Some 10))
        demo_service_world = Inr w1 \<and>
      s_status (services (data w1) ! 0) = Scaling \<and>
      decisions (data w1) = decisions (data demo_service_world) @ [d] \<and>
      auto_scale_record 70 d \<and> revenue_impact d = Some 140) \<and>
   s_status (services (data demo_scaling_world) ! 0) = Scaling \<and>
   (\<exists>w2. updateServicePerformance (demo_env ''up2'' 5000) (demo_update (Some 80) (Some 10))
        demo_scaling_world = Inr w2 \<and>
      s_status (services (data w2) ! 0) = Scaling \<and>
      decisions (data w2) = decisions (data demo_scaling_world))"
proof -
  let ?s = "services (data demo_service_world) ! 0"
  let ?a = "demo_update (Some 80) (Some 10)"
  have idx: "findIndex (\<lambda>s. s_id s = pa_service_id ?a) (services (data demo_service_world)) = Some 0"
    by code_simp
  have auto: "auto_scale (s_scaling_config ?s)"
    by code_simp
  have thr: "kill_threshold (s_scaling_config ?s) = - 10"
    by code_simp
  have p: "dailyProfit (apply_performance (demo_env ''up1'' 4000) ?a ?s) = 70"
    by code_simp
  have act: "s_status ?s = Active"
    by code_simp
  have not_low: "\<not> dailyProfit (apply_performance (demo_env ''up1'' 4000) ?a ?s)
                    < kill_threshold (s_scaling_config ?s)"
    by (simp add: p thr)
  have high: "dailyProfit (apply_performance (demo_env ''up1'' 4000) ?a ?s) > 50"
    by (simp add: p)
  from scale_rule_matches_active_only [OF idx auto not_low high]
  have main: "\<exists>w1 d. updateServicePerformance (demo_env ''up1'' 4000) ?a demo_service_world = Inr w1 \<and>
      s_status (services (data w1) ! 0) = Scaling \<and>
      decisions (data w1) = decisions (data demo_service_world) @ [d] \<and>
      auto_scale_record 70 d \<and> revenue_impact d = Some 140"
    unfolding p by (simp add: act) blast
  let ?t = "services (data demo_scaling_world) ! 0"
  have idx2: "findIndex (\<lambda>s. s_id s = pa_service_id ?a) (services (data demo_scaling_world)) = Some 0"
    by code_simp
  have auto2: "auto_scale (s_scaling_config ?t)"
    by code_simp
  have thr2: "kill_threshold (s_scaling_config ?t) = - 10"
    by code_simp
  have p2: "dailyProfit (apply_performance (demo_env ''up2'' 5000) ?a ?t) = 70"
    by code_simp
  have sc: "s_status ?t = Scaling"
    by code_simp
  have not_low2: "\<not> dailyProfit (apply_performance (demo_env ''up2'' 5000) ?a ?t)
                    < kill_threshold (s_scaling_config ?t)"
    by (simp add: p2 thr2)
  have high2: "dailyProfit (apply_performance (demo_env ''up2'' 5000) ?a ?t) > 50"
    by (simp add: p2)
  from scale_rule_matches_active_only [OF idx2 auto2 not_low2 high2]
  have again: "\<exists>w2. updateServicePerformance (demo_env ''up2'' 5000) ?a demo_scaling_world = Inr w2 \<and>
      s_status (services (data w2) ! 0) = Scaling \<and>
      decisions (data w2) = decisions (data demo_scaling_world)"
    by (simp add: sc)
  show ?thesis
    by (intro conjI idx auto thr p act main sc again)
qed

section \<open>Recording transactions\<close>

lemma reduce_sum_foldl: "reduce_sum f xs = foldl js_add 0 (map f xs)"
  by (simp add: reduce_sum_def foldl_map)

lemma sums_exactly_foldl: "sums_exactly acc xs \<Longrightarrow> foldl js_add acc xs = acc + sum_list xs"
  by (induction xs arbitrary: acc) (simp_all add: add.assoc)

lemma reduce_sum_exact:
  "sums_exactly 0 (map f xs) \<Longrightarrow> reduce_sum f xs = sum_list (map f xs)"
  using sums_exactly_foldl [of 0 "map f xs"] by (simp add: reduce_sum_foldl)

lemma make_transaction_fields [simp]:
  "t_service_id (make_transaction e args) = ta_service_id args"
  "amount (make_transaction e args) = ta_amount args"
  "t_timestamp (make_transaction e args) = now e"
  by (simp_all add: make_transaction_def)

lemma recordTransaction_transactions [simp]:
  "transactions (data (recordTransaction e args w)) =
     transactions (data w) @ [make_transaction e args]"
  by (simp add: recordTransaction_def Let_def split: option.split)

lemma recordTransaction_services:
  "services (data (recordTransaction e args w)) =
     (case findIndex (\<lambda>s. s_id s = ta_service_id args) (services (data w)) of
        None \<Rightarrow> services (data w)
      | Some i \<Rightarrow>
          (services (data w))
            [i := (services (data w) ! i)
               \<lparr>daily_revenue :=
                  reduce_sum amount
                    (todayTransactions e (ta_service_id args)
                       (transactions (data w) @ [make_transaction e args])),
                s_updated_at := now e\<rparr>])"
  by (simp add: recordTransaction_def Let_def split: option.split)

lemma today_is_day:
  assumes "today_start e = day_start" and "\<forall>t \<in> set ts. t_timestamp t < day_end"
  shows "todayTransactions e sid ts = transactions_of_day sid day_start day_end ts"
  using assms unfolding todayTransactions_def by (intro filter_cong) auto

lemma record_step:
  assumes idx: "findIndex (\<lambda>s. s_id s = sid) (services (data w)) = Some i"
    and sid: "ta_service_id args = sid"
    and day: "today_start e = day_start" "day_start \<le> now e" "now e < day_end"
    and past: "\<forall>t \<in> set (transactions (data w)). t_timestamp t < day_end"
  shows "findIndex (\<lambda>s. s_id s = sid) (services (data (recordTransaction e args w))) = Some i"
    and "\<forall>t \<in> set (transactions (data (recordTransaction e args w))). t_timestamp t < day_end"
    and "daily_revenue (services (data (recordTransaction e args w)) ! i) =
           reduce_sum amount (transactions_of_day sid day_start day_end
             (transactions (data (recordTransaction e args w))))"
    and "transactions_of_day sid day_start day_end
             (transactions (data (recordTransaction e args w))) =
         transactions_of_day sid day_start day_end (transactions (data w))
           @ [make_transaction e args]"
proof -
  from idx have len: "i < length (services (data w))"
    and hit: "s_id (services (data w) ! i) = sid"
    using findIndex_SomeD by fastforce+
  show "findIndex (\<lambda>s. s_id s = sid) (services (data (recordTransaction e args w))) = Some i"
    using idx sid hit by (simp add: recordTransaction_services findIndex_update)
  show past': "\<forall>t \<in> set (transactions (data (recordTransaction e args w))). t_timestamp t < day_end"
    using past day by simp
  have "todayTransactions e sid (transactions (data w) @ [make_transaction e args]) =
        transactions_of_day sid day_start day_end (transactions (data w) @ [make_transaction e args])"
    using past' day(1) by (intro today_is_day) simp_all
  then show "daily_revenue (services (data (recordTransaction e args w)) ! i) =
           reduce_sum amount (transactions_of_day sid day_start day_end
             (transactions (data (recordTransaction e args w))))"
    using idx sid len by (simp add: recordTransaction_services)
  show "transactions_of_day sid day_start day_end
             (transactions (data (recordTransaction e args w))) =
         transactions_of_day sid day_start day_end (transactions (data w))
           @ [make_transaction e args]"
    using sid day by simp
qed

lemma record_all_day:
  assumes idx: "findIndex (\<lambda>s. s_id s = sid) (services (data w)) = Some i"
    and calls: "calls \<noteq> []"
    and day: "\<forall>(e, args) \<in> set calls.
                ta_service_id args = sid \<and> today_start e = day_start \<and>
                day_start \<le> now e \<and> now e < day_end"
    and past: "\<forall>t \<in> set (transactions (data w)). t_timestamp t < day_end"
  shows "daily_revenue (services (data (record_all calls w)) ! i) =
           reduce_sum amount (transactions_of_day sid day_start day_end
             (transactions (data (record_all calls w)))) \<and>
         transactions_of_day sid day_start day_end (transactions (data (record_all calls w))) =
           transactions_of_day sid day_start day_end (transactions (data w))
             @ map (\<lambda>(e, args). make_transaction e args) calls"
  using assms
proof (induction calls arbitrary: w)
  case Nil
  then show ?case by simp
next
  case (Cons c calls)
  obtain e args where c: "c = (e, args)" by (cases c)
  let ?w = "recordTransaction e args w"
  from Cons.prems(3) c have ok: "ta_service_id args = sid" "today_start e = day_start"
    "day_start \<le> now e" "now e < day_end"
    by auto
  from Cons.prems(3) have rest: "\<forall>(e, args) \<in> set calls.
                ta_service_id args = sid \<and> today_start e = day_start \<and>
                day_start \<le> now e \<and> now e < day_end"
    by simp
  note step = record_step [OF Cons.prems(1) ok Cons.prems(4)]
  show ?case
  proof (cases "calls = []")
    case True
    with step(3,4) c show ?thesis by simp
  next
    case False
    from Cons.IH [OF step(1) False rest step(2)] step(4) c
    show ?thesis by simp
  qed
qed

text \<open>
  Claim C2, as the code has it. Take any sequence of \<open>record_transaction\<close> calls for one
  registered service, all made within one local day (the day starts at \<open>day_start\<close>, which
  is what every call reads as local midnight, and ends before \<open>day_end\<close>), on a store that
  holds no transaction dated after that day. After the last call (hence after every call,
  the sequence being arbitrary) the service's \<open>daily_revenue\<close> is recomputed from the
  transaction list: it is the sum, accumulated from 0 in list order with the additions of
  doubles, of the amounts of the service's stored transactions whose timestamp lies in that
  day, and these are the ones that were there before followed by the ones just appended.
  The counter is the exact sum of those amounts whenever none of the additions rounds.
\<close>

theorem daily_revenue_is_recomputed_double_sum:
  assumes idx: "findIndex (\<lambda>s. s_id s = sid) (services (data w)) = Some i"
    and calls: "calls \<noteq> []"
    and day: "\<forall>(e, args) \<in> set calls.
                ta_service_id args = sid \<and> today_start e = day_start \<and>
                day_start \<le> now e \<and> now e < day_end"
    and past: "\<forall>t \<in> set (transactions (data w)). t_timestamp t < day_end"
  shows "daily_revenue (services (data (record_all calls w)) ! i) =
           reduce_sum amount (transactions_of_day sid day_start day_end
             (transactions (data (record_all calls w)))) \<and>
         transactions_of_day sid day_start day_end (transactions (data (record_all calls w))) =
           transactions_of_day sid day_start day_end (transactions (data w))
             @ map (\<lambda>(e, args). make_transaction e args) calls \<and>
         (sums_exactly 0 (map amount (transactions_of_day sid day_start day_end
             (transactions (data (record_all calls w))))) \<longrightarrow>
          daily_revenue (services (data (record_all calls w)) ! i) =
            sum_list (map amount (transactions_of_day sid day_start day_end
              (transactions (data (record_all calls w))))))"
proof -
  note main = record_all_day [OF idx calls day past]
  from main have counter: "daily_revenue (services (data (record_all calls w)) ! i) =
           reduce_sum amount (transactions_of_day sid day_start day_end
             (transactions (data (record_all calls w))))"
    by (rule conjunct1)
  from main have lists: "transactions_of_day sid day_start day_end
           (transactions (data (record_all calls w))) =
           transactions_of_day sid day_start day_end (transactions (data w))
             @ map (\<lambda>(e, args). make_transaction e args) calls"
    by (rule conjunct2)
  have exact: "sums_exactly 0 (map amount (transactions_of_day sid day_start day_end
             (transactions (data (record_all calls w))))) \<longrightarrow>
          daily_revenue (services (data (record_all calls w)) ! i) =
            sum_list (map amount (transactions_of_day sid day_start day_end
              (transactions (data (record_all calls w)))))"
    using counter reduce_sum_exact by (intro impI) simp
  show ?thesis
    by (intro conjI counter lists exact)
qed

text \<open>
  The example: two payments of 2 and 3 on the fresh service. No addition rounds, and the
  counter is 5.
\<close>

theorem daily_revenue_is_recomputed_double_sum_witness:
  "findIndex (\<lambda>s. s_id s = ''svc'') (services (data demo_service_world)) = Some 0 \<and>
   transactions (data demo_service_world) = [] \<and>
   map amount (transactions (data (record_all demo_calls demo_service_world))) = [2, 3] \<and>
   sums_exactly 0 (map amount (transactions_of_day ''svc'' 0 86400000
     (transactions (data (record_all demo_calls demo_service_world))))) \<and>
   daily_revenue (services (data (record_all demo_calls demo_service_world)) ! 0) =
     reduce_sum amount (transactions_of_day ''svc'' 0 86400000
       (transactions (data (record_all demo_calls demo_service_world)))) \<and>
   daily_revenue (services (data (record_all demo_calls demo_service_world)) ! 0) =
     sum_list (map amount (transactions_of_day ''svc'' 0 86400000
       (transactions (data (record_all demo_calls demo_service_world))))) \<and>
   daily_revenue (services (data (record_all demo_calls demo_service_world)) ! 0) = 5"
proof -
  have idx: "findIndex (\<lambda>s. s_id s = ''svc'') (services (data demo_service_world)) = Some 0"
    by code_simp
  have none: "transactions (data demo_service_world) = []"
    by code_simp
  have calls: "demo_calls \<noteq> []"
    by (simp add: demo_calls_def)
  have day: "\<forall>(e, args) \<in> set demo_calls.
               ta_service_id args = ''svc'' \<and> today_start e = 0 \<and> 0 \<le> now e \<and> now e < 86400000"
    by (simp add: demo_calls_def demo_env_def demo_payment_def)
  have past: "\<forall>t \<in> set (transactions (data demo_service_world)). t_timestamp t < 86400000"
    by (simp add: none)
  have appended: "map amount (transactions (data (record_all demo_calls demo_service_world))) = [2, 3]"
    by code_simp
  let ?X = "daily_revenue (services (data (record_all demo_calls demo_service_world)) ! 0)"
  let ?D = "transactions_of_day ''svc'' 0 86400000
       (transactions (data (record_all demo_calls demo_service_world)))"
  have exact: "sums_exactly 0 (map amount ?D)"
    by code_simp
  have total: "sum_list (map amount ?D) = 5"
    by code_simp
  note main = daily_revenue_is_recomputed_double_sum [OF idx calls day past]
  from main have a: "?X = reduce_sum amount ?D"
    by (rule conjunct1)
  from main have "sums_exactly 0 (map amount ?D) \<longrightarrow> ?X = sum_list (map amount ?D)"
    by (rule conjunct2 [OF conjunct2])
  with exact have b: "?X = sum_list (map amount ?D)"
    by (rule rev_mp)
  from b total have five: "?X = 5"
    by (rule trans)
  show ?thesis
    by (intro conjI idx none appended exact a b five)
qed

text \<open>
  Two payments of 10 and 20 cents on the fresh service: the counter is the double
  \<open>0.30000000000000004\<close>, which is not the sum of the two amounts.
\<close>

theorem daily_revenue_of_cent_amounts_is_rounded:
  "map amount (transactions (data (record_all demo_cent_calls demo_service_world))) =
     [3602879701896397 / 2 ^ 55, 3602879701896397 / 2 ^ 54] \<and>
   daily_revenue (services (data (record_all demo_cent_calls demo_service_world)) ! 0) =
     1351079888211149 / 2 ^ 52 \<and>
   sum_list (map amount (transactions_of_day ''svc'' 0 86400000
     (transactions (data (record_all demo_cent_calls demo_service_world))))) =
     10808639105689191 / 2 ^ 55 \<and>
   daily_revenue (services (data (record_all demo_cent_calls demo_service_world)) ! 0) \<noteq>
     sum_list (map amount (transactions_of_day ''svc'' 0 86400000
       (transactions (data (record_all demo_cent_calls demo_service_world)))))"
proof -
  have amounts: "map amount (transactions (data (record_all demo_cent_calls demo_service_world))) =
     [3602879701896397 / 2 ^ 55, 3602879701896397 / 2 ^ 54]"
    by code_simp
  have counter: "daily_revenue (services (data (record_all demo_cent_calls demo_service_world)) ! 0) =
     1351079888211149 / 2 ^ 52"
    by code_simp
  have total: "sum_list (map amount (transactions_of_day ''svc'' 0 86400000
     (transactions (data (record_all demo_cent_calls demo_service_world))))) =
     10808639105689191 / 2 ^ 55"
    by code_simp
  have differ: "daily_revenue (services (data (record_all demo_cent_calls demo_service_world)) ! 0) \<noteq>
     sum_list (map amount (transactions_of_day ''svc'' 0 86400000
       (transactions (data (record_all demo_cent_calls demo_service_world)))))"
    unfolding counter total by simp
  show ?thesis
    by (intro conjI amounts counter total differ)
qed

text \<open>
  Claim C9. A \<open>record_transaction\<close> call whose \<open>service_id\<close> matches no registered
  service succeeds: the tool returns normally, the transaction is appended, and nothing
  else of the store changes but the activity stamp; in particular no service is touched.
\<close>

theorem unknown_service_transaction_is_kept:
  assumes "\<forall>s \<in> set (services (data w)). s_id s \<noteq> ta_service_id args"
  shows "callTool e (Record_transaction args) w = Inr (recordTransaction e args w) \<and>
         transactions (data (recordTransaction e args w)) =
           transactions (data w) @ [make_transaction e args] \<and>
         services (data (recordTransaction e args w)) = services (data w) \<and>
         data (recordTransaction e args w) =
           touch e ((data w)\<lparr>transactions := transactions (data w) @ [make_transaction e args]\<rparr>)"
proof -
  from assms have none: "findIndex (\<lambda>s. s_id s = ta_service_id args) (services (data w)) = None"
    by (simp add: findIndex_None)
  then show ?thesis
    by (simp add: recordTransaction_def Let_def)
qed

text \<open>The example: a payment of 7 for the unknown service \<open>nobody\<close>.\<close>

theorem unknown_service_transaction_is_kept_witness:
  "services (data demo_service_world) \<noteq> [] \<and>
   map s_id (services (data demo_service_world)) = [''svc''] \<and>
   callTool (demo_env ''tx9'' 2000) (Record_transaction (demo_payment ''nobody'' 7))
       demo_service_world =
     Inr (recordTransaction (demo_env ''tx9'' 2000) (demo_payment ''nobody'' 7)
            demo_service_world) \<and>
   map amount (transactions (data (recordTransaction (demo_env ''tx9'' 2000)
     (demo_payment ''nobody'' 7) demo_service_world))) = [7] \<and>
   services (data (recordTransaction (demo_env ''tx9'' 2000) (demo_payment ''nobody'' 7)
     demo_service_world)) = services (data demo_service_world)"
proof -
  have ids: "map s_id (services (data demo_service_world)) = [''svc'']"
    by code_simp
  then have ne: "services (data demo_service_world) \<noteq> []"
    by auto
  have "\<forall>i \<in> set (map s_id (services (data demo_service_world))).
          i \<noteq> ta_service_id (demo_payment ''nobody'' 7)"
    unfolding ids by (simp add: demo_payment_def)
  then have hyp: "\<forall>s \<in> set (services (data demo_service_world)).
      s_id s \<noteq> ta_service_id (demo_payment ''nobody'' 7)"
    by simp
  have none: "transactions (data demo_service_world) = []"
    by code_simp
  note main = unknown_service_transaction_is_kept [OF hyp, of "demo_env ''tx9'' 2000"]
  have amt: "map amount (transactions (data (recordTransaction (demo_env ''tx9'' 2000)
     (demo_payment ''nobody'' 7) demo_service_world))) = [7]"
    using main by (simp add: none demo_payment_def)
  from main have c: "callTool (demo_env ''tx9'' 2000) (Record_transaction (demo_payment ''nobody'' 7))
       demo_service_world =
     Inr (recordTransaction (demo_env ''tx9'' 2000) (demo_payment ''nobody'' 7)
            demo_service_world)"
    and sv: "services (data (recordTransaction (demo_env ''tx9'' 2000) (demo_payment ''nobody'' 7)
     demo_service_world)) = services (data demo_service_world)"
    by (rule conjunct1, rule conjunct1 [OF conjunct2 [OF conjunct2]])
  show ?thesis
    by (intro conjI ne ids c amt sv)
qed

section \<open>Resolving blockers\<close>

text \<open>
  Claim C10. When some blocker carries the given identifier, \<open>resolve_blocker\<close> succeeds
  whatever the blocker's status is: the first such blocker gets the status \<open>resolved\<close> and
  the given resolution summary, and no other blocker changes. When no blocker carries the
  identifier the operation fails with "Blocker not found" (the store is then untouched: the
  error is thrown before any assignment).
\<close>

theorem resolve_blocker_ignores_status:
  "((\<exists>b \<in> set (blockers (data w)). b_id b = rb_blocker_id args) \<longrightarrow>
      (\<exists>w' i. resolveBlocker e args w = Inr w' \<and>
         callTool e (Resolve_blocker args) w = Inr w' \<and>
         i < length (blockers (data w)) \<and>
         b_id (blockers (data w) ! i) = rb_blocker_id args \<and>
         blockers (data w') =
           (blockers (data w))
             [i := (blockers (data w) ! i)
                \<lparr>b_status := Resolved,
                 resolution_summary := Some (rb_resolution_summary args)\<rparr>] \<and>
         b_status (blockers (data w') ! i) = Resolved \<and>
         resolution_summary (blockers (data w') ! i) = Some (rb_resolution_summary args))) \<and>
   ((\<forall>b \<in> set (blockers (data w)). b_id b \<noteq> rb_blocker_id args) \<longrightarrow>
      resolveBlocker e args w = Inl (Blocker_not_found (rb_blocker_id args)) \<and>
      callTool e (Resolve_blocker args) w =
        Inl (InternalError (Blocker_not_found (rb_blocker_id args))))"
proof (intro conjI impI)
  assume "\<exists>b \<in> set (blockers (data w)). b_id b = rb_blocker_id args"
  then have "findIndex (\<lambda>b. b_id b = rb_blocker_id args) (blockers (data w)) \<noteq> None"
    by (simp add: findIndex_None)
  then obtain i where idx: "findIndex (\<lambda>b. b_id b = rb_blocker_id args) (blockers (data w)) = Some i"
    by blast
  then have len: "i < length (blockers (data w))"
    and hit: "b_id (blockers (data w) ! i) = rb_blocker_id args"
    using findIndex_SomeD by fastforce+
  let ?bs = "(blockers (data w))
             [i := (blockers (data w) ! i)
                \<lparr>b_status := Resolved,
                 resolution_summary := Some (rb_resolution_summary args)\<rparr>]"
  let ?w' = "saveData e (w\<lparr>data := (data w)\<lparr>blockers := ?bs\<rparr>\<rparr>)"
  have r: "resolveBlocker e args w = Inr ?w'"
    using idx by (simp add: resolveBlocker_def)
  then have c: "callTool e (Resolve_blocker args) w = Inr ?w'"
    by (simp add: rethrow_def)
  have bs: "blockers (data ?w') = ?bs"
    by simp
  have st: "b_status (blockers (data ?w') ! i) = Resolved"
    and sm: "resolution_summary (blockers (data ?w') ! i) = Some (rb_resolution_summary args)"
    using len by simp_all
  from r c len hit bs st sm
  show "\<exists>w' i. resolveBlocker e args w = Inr w' \<and>
         callTool e (Resolve_blocker args) w = Inr w' \<and>
         i < length (blockers (data w)) \<and>
         b_id (blockers (data w) ! i) = rb_blocker_id args \<and>
         blockers (data w') = (blockers (data w))
             [i := (blockers (data w) ! i)
                \<lparr>b_status := Resolved,
                 resolution_summary := Some (rb_resolution_summary args)\<rparr>] \<and>
         b_status (blockers (data w') ! i) = Resolved \<and>
         resolution_summary (blockers (data w') ! i) = Some (rb_resolution_summary args)"
    by blast
next
  assume "\<forall>b \<in> set (blockers (data w)). b_id b \<noteq> rb_blocker_id args"
  then have none: "findIndex (\<lambda>b. b_id b = rb_blocker_id args) (blockers (data w)) = None"
    by (simp add: findIndex_None)
  then show "resolveBlocker e args w = Inl (Blocker_not_found (rb_blocker_id args))"
    by (simp add: resolveBlocker_def)
  with none show "callTool e (Resolve_blocker args) w =
        Inl (InternalError (Blocker_not_found (rb_blocker_id args)))"
    by (simp add: rethrow_def)
qed

text \<open>
  The example: an escalated blocker is resolved all the same; an unknown identifier fails.
\<close>

theorem resolve_blocker_ignores_status_witness:
  "map b_id (blockers (data demo_escalated_world)) = [''blk''] \<and>
   map b_status (blockers (data demo_escalated_world)) = [Escalated] \<and>
   (\<exists>w'. resolveBlocker (demo_env ''r'' 6000)
            \<lparr> rb_blocker_id = ''blk'', rb_resolution_summary = ''key rotated'' \<rparr>
            demo_escalated_world = Inr w' \<and>
          map b_status (blockers (data w')) = [Resolved] \<and>
          map resolution_summary (blockers (data w')) = [Some ''key rotated'']) \<and>
   resolveBlocker (demo_env ''r'' 6000)
     \<lparr> rb_blocker_id = ''other'', rb_resolution_summary = ''key rotated'' \<rparr>
     demo_escalated_world = Inl (Blocker_not_found ''other'')"
proof -
  let ?yes = "\<lparr> rb_blocker_id = ''blk'', rb_resolution_summary = ''key rotated'' \<rparr>"
  let ?no = "\<lparr> rb_blocker_id = ''other'', rb_resolution_summary = ''key rotated'' \<rparr>"
  have ids: "map b_id (blockers (data demo_escalated_world)) = [''blk'']"
    by code_simp
  have sts: "map b_status (blockers (data demo_escalated_world)) = [Escalated]"
    by code_simp
  from ids obtain b where one: "blockers (data demo_escalated_world) = [b]" and b: "b_id b = ''blk''"
    by auto
  have ex: "\<exists>b \<in> set (blockers (data demo_escalated_world)). b_id b = rb_blocker_id ?yes"
    by (simp add: one b)
  have nex: "\<forall>b \<in> set (blockers (data demo_escalated_world)). b_id b \<noteq> rb_blocker_id ?no"
    by (simp add: one b)
  from resolve_blocker_ignores_status [of demo_escalated_world ?yes "demo_env ''r'' 6000"] ex
  obtain w' i where r: "resolveBlocker (demo_env ''r'' 6000) ?yes demo_escalated_world = Inr w'"
    and i: "i < length (blockers (data demo_escalated_world))"
    and bs: "blockers (data w') = (blockers (data demo_escalated_world))
             [i := (blockers (data demo_escalated_world) ! i)
                \<lparr>b_status := Resolved,
                 resolution_summary := Some (rb_resolution_summary ?yes)\<rparr>]"
    by blast
  from i one have i0: "i = 0" by simp
  have a: "map b_status (blockers (data w')) = [Resolved]"
    and s: "map resolution_summary (blockers (data w')) = [Some ''key rotated'']"
    by (simp_all add: bs one i0)
  from resolve_blocker_ignores_status [of demo_escalated_world ?no "demo_env ''r'' 6000"] nex
  have n: "resolveBlocker (demo_env ''r'' 6000) ?no demo_escalated_world =
             Inl (Blocker_not_found ''other'')"
    by simp
  from r a s have e: "\<exists>w'. resolveBlocker (demo_env ''r'' 6000) ?yes demo_escalated_world = Inr w' \<and>
          map b_status (blockers (data w')) = [Resolved] \<and>
          map resolution_summary (blockers (data w')) = [Some ''key rotated'']"
    by (intro exI [of _ w'] conjI)
  show ?thesis
    by (intro conjI ids sts e n)
qed

section \<open>Loading the store\<close>

lemma touch_empty_data: "touch e (empty_data e) = empty_data e"
  by (simp add: touch_def empty_data_def)

text \<open>
  Claim C7. \<open>loadData\<close> always returns. When the data file is missing or its payload
  cannot be read or parsed, the store afterwards is the empty store: every collection empty
  and a fresh session record (new identifier, start and last activity at the current
  instant, auto-save enabled). A missing file is moreover created (when the disk can be
  written), a damaged one is left alone. A readable image becomes the store as it is.
\<close>

theorem load_falls_back_to_empty_store:
  "(disk w = NoFile \<or> disk w = Corrupt \<longrightarrow>
      data (loadData e w) =
        \<lparr> business_states = [], services = [], transactions = [], decisions = [],
          market_opportunities = [], customers = [], conversation_turns = [],
          technical_discoveries = [], blockers = [], progress_milestones = [],
          session_metadata =
            \<lparr> current_session_id = uuid e 0, session_start = now e, last_activity = now e,
              auto_save_enabled = True \<rparr> \<rparr>) \<and>
   (disk w = Corrupt \<longrightarrow> disk (loadData e w) = Corrupt) \<and>
   (disk w = NoFile \<longrightarrow>
      disk (loadData e w) = (if writable w then Image (data (loadData e w)) else NoFile)) \<and>
   (\<forall>d. disk w = Image d \<longrightarrow> data (loadData e w) = d \<and> disk (loadData e w) = Image d)"
  by (auto simp: loadData_def saveData_def Let_def touch_empty_data) (simp_all add: empty_data_def)

text \<open>
  The example: a server that holds a service and finds its file damaged starts from the
  empty store; one that finds its own image gets it back.
\<close>

theorem load_falls_back_to_empty_store_witness:
  "disk demo_corrupt_world = Corrupt \<and>
   services (data demo_corrupt_world) \<noteq> [] \<and>
   data (loadData (demo_env ''again'' 9000) demo_corrupt_world) =
     \<lparr> business_states = [], services = [], transactions = [], decisions = [],
       market_opportunities = [], customers = [], conversation_turns = [],
       technical_discoveries = [], blockers = [], progress_milestones = [],
       session_metadata =
         \<lparr> current_session_id = ''again'', session_start = 9000, last_activity = 9000,
           auto_save_enabled = True \<rparr> \<rparr> \<and>
   data (loadData (demo_env ''again'' 9000) demo_paid_world) = data demo_paid_world"
proof -
  have c: "disk demo_corrupt_world = Corrupt"
    by (simp add: demo_corrupt_world_def)
  have ne: "services (data demo_corrupt_world) \<noteq> []"
    by code_simp
  have img: "disk demo_paid_world = Image (data demo_paid_world)"
    by code_simp
  note main = load_falls_back_to_empty_store [of demo_corrupt_world "demo_env ''again'' 9000"]
  note main2 = load_falls_back_to_empty_store [of demo_paid_world "demo_env ''again'' 9000"]
  from main c have a: "data (loadData (demo_env ''again'' 9000) demo_corrupt_world) =
     \<lparr> business_states = [], services = [], transactions = [], decisions = [],
       market_opportunities = [], customers = [], conversation_turns = [],
       technical_discoveries = [], blockers = [], progress_milestones = [],
       session_metadata =
         \<lparr> current_session_id = ''again'', session_start = 9000, last_activity = 9000,
           auto_save_enabled = True \<rparr> \<rparr>"
    by (simp add: demo_env_def)
  from main2 img have b: "data (loadData (demo_env ''again'' 9000) demo_paid_world) = data demo_paid_world"
    by blast
  show ?thesis
    by (intro conjI c ne a b)
qed

section \<open>Revenue analytics on an empty window\<close>

lemma num_or_nonzero: "d \<noteq> 0 \<Longrightarrow> num_or x d \<noteq> 0"
  by (simp add: num_or_def split: option.split)

text \<open>
  Claim C8. When no stored transaction falls into the requested window,
  \<open>get_revenue_analytics\<close> reports total revenue 0 and transaction count 0, the average
  transaction is 0 (the division by the count is not made), the daily average is the finite
  value 0 (its divisor, the number of days, is never 0: a missing or zero \<open>timeframe_days\<close>
  becomes 30), and the per-service list, the only other place that divides, is empty: no
  division by zero occurs.
\<close>

theorem empty_window_has_zero_totals:
  assumes "\<forall>t \<in> set (transactions (data w)).
             \<not> t_timestamp t \<ge> now e - num_or (aa_timeframe_days args) 30 * 24 * 60 * 60 * 1000"
  shows "getRevenueAnalytics e args w =
           \<lparr> rr_timeframe_days = num_or (aa_timeframe_days args) 30,
             rr_total_revenue = 0,
             total_transactions = 0,
             average_transaction = Some 0,
             rr_daily_average = Some 0,
             by_service = [] \<rparr>"
proof -
  have "filter (\<lambda>t. t_timestamp t \<ge> now e - num_or (aa_timeframe_days args) 30 * 24 * 60 * 60 * 1000)
          (transactions (data w)) = []"
    using assms by (simp add: filter_empty_conv)
  then show ?thesis
    by (simp add: getRevenueAnalytics_def Let_def reduce_sum_def js_sort_def js_div_def
        num_or_nonzero)
qed

text \<open>The scenario of the specification: a window of 7 days on a store without transactions.\<close>

theorem empty_window_has_zero_totals_witness:
  "transactions (data boot_world) = [] \<and>
   getRevenueAnalytics (demo_env ''q'' 7000)
       \<lparr> aa_timeframe_days = Some 7, aa_service_id = None \<rparr> boot_world =
     \<lparr> rr_timeframe_days = 7, rr_total_revenue = 0, total_transactions = 0,
       average_transaction = Some 0, rr_daily_average = Some 0, by_service = [] \<rparr>"
proof -
  have none: "transactions (data boot_world) = []"
    by code_simp
  have hyp: "\<forall>t \<in> set (transactions (data boot_world)).
      \<not> t_timestamp t \<ge> now (demo_env ''q'' 7000)
          - num_or (aa_timeframe_days \<lparr> aa_timeframe_days = Some 7, aa_service_id = None \<rparr>) 30
            * 24 * 60 * 60 * 1000"
    by (simp add: none)
  from empty_window_has_zero_totals [OF hyp]
  have r: "getRevenueAnalytics (demo_env ''q'' 7000)
       \<lparr> aa_timeframe_days = Some 7, aa_service_id = None \<rparr> boot_world =
     \<lparr> rr_timeframe_days = 7, rr_total_revenue = 0, total_transactions = 0,
       average_transaction = Some 0, rr_daily_average = Some 0, by_service = [] \<rparr>"
    by (simp add: num_or_def)
  show ?thesis
    by (intro conjI none r)
qed

section \<open>Ranking market opportunities\<close>

text \<open>
  Claim C6 asks for the order "profit potential descending, missing potentials last, then
  creation time descending", which is also what the comment above the \<open>sort\<close> call
  announces. The comparator does not produce it. Evaluated on two stores: with two
  opportunities of equal potential 5 the older stays before the newer (the comparator
  returns 0 and never looks at the creation time); with a potential of 100 recorded before an
  opportunity without potential, the one without potential comes first (the pair is compared
  by creation time alone). The comparator is not even an ordering: on three opportunities
  \<open>a\<close> (potential 10, created at 1), \<open>b\<close> (no potential, created at 2) and \<open>c\<close>
  (potential 5, created at 3) it puts \<open>b\<close> before \<open>a\<close>, \<open>c\<close> before \<open>b\<close> and \<open>a\<close>
  before \<open>c\<close>.
\<close>

theorem ranking_ignores_age_on_ties_and_puts_unknown_first:
  "map o_id (market_opportunities (data demo_tied_world)) = [''older'', ''newer''] \<and>
   map profit_potential (market_opportunities (data demo_tied_world)) = [Some 5, Some 5] \<and>
   map o_created_at (market_opportunities (data demo_tied_world)) = [1000, 2000] \<and>
   map o_id (fst (getMarketOpportunities \<lparr> ga_status = None, ga_limit = None \<rparr> demo_tied_world)) =
     [''older'', ''newer''] \<and>
   map profit_potential (market_opportunities (data demo_unknown_world)) = [Some 100, None] \<and>
   map o_created_at (market_opportunities (data demo_unknown_world)) = [1000, 2000] \<and>
   map profit_potential
     (fst (getMarketOpportunities \<lparr> ga_status = None, ga_limit = None \<rparr> demo_unknown_world)) =
     [None, Some 100] \<and>
   opportunity_compare (demo_listing ''b'' None 2) (demo_listing ''a'' (Some 10) 1) < 0 \<and>
   opportunity_compare (demo_listing ''c'' (Some 5) 3) (demo_listing ''b'' None 2) < 0 \<and>
   opportunity_compare (demo_listing ''a'' (Some 10) 1) (demo_listing ''c'' (Some 5) 3) < 0"
  by code_simp

section \<open>Logging a conversation turn\<close>

lemma log_each_decision_effect:
  "\<exists>ds. decisions (data (log_each_decision e k terms w)) = decisions (data w) @ ds \<and>
        map d_context ds = map (\<lambda>t. ''Decision made in conversation: '' @ t) terms \<and>
        (\<forall>d \<in> set ds. decision_type d = ''conversation_decision'' \<and> d_outcome d = Auto_approved \<and>
           confidence_score d = Some (8 / 10))"
proof (induction terms arbitrary: k w)
  case Nil
  then show ?case by simp
next
  case (Cons t terms)
  let ?inp = "\<lparr> di_decision_type = ''conversation_decision'',
                 di_context = ''Decision made in conversation: '' @ t,
                 di_reasoning = ''Auto-detected from conversation analysis'',
                 di_outcome = Auto_approved,
                 di_revenue_impact = None,
                 di_risk_level = None,
                 di_confidence_score = Some (8 / 10) \<rparr>"
  let ?w = "snd (logDecisionInternal e k ?inp w)"
  let ?d = "fst (logDecisionInternal e k ?inp w)"
  from Cons.IH [of "Suc k" ?w] obtain ds where
    ds: "decisions (data (log_each_decision e (Suc k) terms ?w)) = decisions (data ?w) @ ds"
      "map d_context ds = map (\<lambda>t. ''Decision made in conversation: '' @ t) terms"
      "\<forall>d \<in> set ds. decision_type d = ''conversation_decision'' \<and> d_outcome d = Auto_approved \<and>
           confidence_score d = Some (8 / 10)"
    by blast
  have d: "d_context ?d = ''Decision made in conversation: '' @ t"
    "decision_type ?d = ''conversation_decision''" "d_outcome ?d = Auto_approved"
    "confidence_score ?d = Some (8 / 10)"
    by (simp_all add: logDecisionInternal_def Let_def)
  have "decisions (data (log_each_decision e k (t # terms) w)) = decisions (data w) @ (?d # ds)"
    using ds(1) by simp
  moreover have "map d_context (?d # ds) =
      map (\<lambda>t. ''Decision made in conversation: '' @ t) (t # terms)"
    using ds(2) d(1) by simp
  moreover have "\<forall>x \<in> set (?d # ds). decision_type x = ''conversation_decision'' \<and>
      d_outcome x = Auto_approved \<and> confidence_score x = Some (8 / 10)"
    using ds(3) d(2,3,4) by simp
  ultimately show ?case by blast
qed

lemma log_each_decision_keeps [simp]:
  "blockers (data (log_each_decision e k terms w)) = blockers (data w)"
  "conversation_turns (data (log_each_decision e k terms w)) = conversation_turns (data w)"
  by (induction terms arbitrary: k w) simp_all

lemma extractKeywords_nonempty:
  "kw \<in> set keywords \<Longrightarrow> str_includes text kw \<Longrightarrow> extractKeywords text keywords \<noteq> []"
  by (auto simp: extractKeywords_def filter_empty_conv)

text \<open>
  Claim C5, as the code has it. Take an exchange whose combined, lower-cased text contains
  at least one decision keyword and at least one blocker keyword, logged without entities or
  a context type supplied by the caller. The stored turn carries the matched decision and
  blocker keywords, both lists non-empty, and the context type inferred by the fixed
  priority order. As a side effect exactly one decision of type \<open>conversation_decision\<close>
  (outcome \<open>auto_approved\<close>, confidence 0.8) is appended per matched decision keyword, in
  order, through \<open>logDecisionInternal\<close>. No blocker is appended: the turn is handed to
  \<open>autoCaptureContext\<close> with the trigger \<open>'decision_made'\<close> only.
\<close>

theorem conversation_turn_materialises_decisions_only:
  assumes own: "ca_extracted_entities args = None" "ca_context_type args = None"
    and dec: "kd \<in> set decisionKeywords"
      "str_includes (combined_text (ca_user_input args) (ca_ai_response args)) kd"
    and blk: "kb \<in> set blockerKeywords"
      "str_includes (combined_text (ca_user_input args) (ca_ai_response args)) kb"
  shows "\<exists>turn ds.
           conversation_turns (data (logConversationTurn e args w)) =
             conversation_turns (data w) @ [turn] \<and>
           decisions_made (c_extracted_entities turn) =
             extractKeywords (combined_text (ca_user_input args) (ca_ai_response args))
               decisionKeywords \<and>
           blockers_identified (c_extracted_entities turn) =
             extractKeywords (combined_text (ca_user_input args) (ca_ai_response args))
               blockerKeywords \<and>
           decisions_made (c_extracted_entities turn) \<noteq> [] \<and>
           blockers_identified (c_extracted_entities turn) \<noteq> [] \<and>
           c_context_type turn = inferContextType (ca_user_input args) (ca_ai_response args) \<and>
           decisions (data (logConversationTurn e args w)) = decisions (data w) @ ds \<and>
           map d_context ds =
             map (\<lambda>t. ''Decision made in conversation: '' @ t)
               (decisions_made (c_extracted_entities turn)) \<and>
           (\<forall>d \<in> set ds. decision_type d = ''conversation_decision'' \<and>
              d_outcome d = Auto_approved \<and> confidence_score d = Some (8 / 10)) \<and>
           blockers (data (logConversationTurn e args w)) = blockers (data w)"
proof -
  let ?text = "combined_text (ca_user_input args) (ca_ai_response args)"
  let ?turn = "make_turn e args w"
  let ?w1 = "saveData e (w\<lparr>data := (data w)
                   \<lparr>conversation_turns := conversation_turns (data w) @ [?turn]\<rparr>\<rparr>)"
  have dm: "decisions_made (c_extracted_entities ?turn) = extractKeywords ?text decisionKeywords"
    and bi: "blockers_identified (c_extracted_entities ?turn) = extractKeywords ?text blockerKeywords"
    and ct: "c_context_type ?turn = inferContextType (ca_user_input args) (ca_ai_response args)"
    using own
    by (simp_all add: make_turn_def val_or_def extractEntitiesFromConversation_def Let_def)
  have dne: "decisions_made (c_extracted_entities ?turn) \<noteq> []"
    unfolding dm using dec by (rule extractKeywords_nonempty)
  have bne: "blockers_identified (c_extracted_entities ?turn) \<noteq> []"
    unfolding bi using blk by (rule extractKeywords_nonempty)
  have run: "logConversationTurn e args w =
      log_each_decision e 1 (decisions_made (c_extracted_entities ?turn)) ?w1"
    using dne by (simp add: logConversationTurn_def autoCaptureContext_def Let_def)
  from log_each_decision_effect [of e 1 "decisions_made (c_extracted_entities ?turn)" ?w1]
  obtain ds where
    ds: "decisions (data (logConversationTurn e args w)) = decisions (data w) @ ds"
      "map d_context ds = map (\<lambda>t. ''Decision made in conversation: '' @ t)
         (decisions_made (c_extracted_entities ?turn))"
      "\<forall>d \<in> set ds. decision_type d = ''conversation_decision'' \<and> d_outcome d = Auto_approved \<and>
           confidence_score d = Some (8 / 10)"
    unfolding run [symmetric] by auto
  have turns: "conversation_turns (data (logConversationTurn e args w)) =
      conversation_turns (data w) @ [?turn]"
    unfolding run by simp
  have blockers: "blockers (data (logConversationTurn e args w)) = blockers (data w)"
    unfolding run by simp
  from turns dm bi dne bne ct ds blockers show ?thesis
    by blast
qed


text \<open>
  The example mentions "Error" and "Decided": the context type is \<open>debugging\<close>, one
  decision is appended, the blockers stay as they were.
\<close>

theorem conversation_turn_materialises_decisions_only_witness:
  "ca_extracted_entities demo_turn = None \<and> ca_context_type demo_turn = None \<and>
   ''decided'' \<in> set decisionKeywords \<and>
   str_includes (combined_text (ca_user_input demo_turn) (ca_ai_response demo_turn)) ''decided'' \<and>
   ''error'' \<in> set blockerKeywords \<and>
   str_includes (combined_text (ca_user_input demo_turn) (ca_ai_response demo_turn)) ''error'' \<and>
   inferContextType (ca_user_input demo_turn) (ca_ai_response demo_turn) = Ctx_debugging \<and>
   (\<exists>turn ds.
      conversation_turns (data (logConversationTurn (demo_env ''turn'' 3000) demo_turn boot_world)) =
        conversation_turns (data boot_world) @ [turn] \<and>
      decisions_made (c_extracted_entities turn) \<noteq> [] \<and>
      blockers_identified (c_extracted_entities turn) \<noteq> [] \<and>
      c_context_type turn = Ctx_debugging \<and>
      decisions (data (logConversationTurn (demo_env ''turn'' 3000) demo_turn boot_world)) =
        decisions (data boot_world) @ ds \<and>
      length ds = length (decisions_made (c_extracted_entities turn)) \<and>
      blockers (data (logConversationTurn (demo_env ''turn'' 3000) demo_turn boot_world)) =
        blockers (data boot_world))"
proof -
  let ?text = "combined_text (ca_user_input demo_turn) (ca_ai_response demo_turn)"
  have own: "ca_extracted_entities demo_turn = None" "ca_context_type demo_turn = None"
    by (simp_all add: demo_turn_def)
  have kd: "''decided'' \<in> set decisionKeywords"
    by (simp add: decisionKeywords_def)
  have kb: "''error'' \<in> set blockerKeywords"
    by (simp add: blockerKeywords_def)
  have hd: "str_includes ?text ''decided''"
    by code_simp
  have hb: "str_includes ?text ''error''"
    by code_simp
  have ctx: "inferContextType (ca_user_input demo_turn) (ca_ai_response demo_turn) = Ctx_debugging"
    by code_simp
  from conversation_turn_materialises_decisions_only
    [OF own kd hd kb hb, of "demo_env ''turn'' 3000" boot_world]
  obtain turn ds where
    t: "conversation_turns (data (logConversationTurn (demo_env ''turn'' 3000) demo_turn boot_world)) =
        conversation_turns (data boot_world) @ [turn]"
    and dne: "decisions_made (c_extracted_entities turn) \<noteq> []"
    and bne: "blockers_identified (c_extracted_entities turn) \<noteq> []"
    and ct: "c_context_type turn =
        inferContextType (ca_user_input demo_turn) (ca_ai_response demo_turn)"
    and d: "decisions (data (logConversationTurn (demo_env ''turn'' 3000) demo_turn boot_world)) =
        decisions (data boot_world) @ ds"
    and m: "map d_context ds =
             map (\<lambda>t. ''Decision made in conversation: '' @ t)
               (decisions_made (c_extracted_entities turn))"
    and b: "blockers (data (logConversationTurn (demo_env ''turn'' 3000) demo_turn boot_world)) =
        blockers (data boot_world)"
    by blast
  from m have len: "length ds = length (decisions_made (c_extracted_entities turn))"
    by (rule map_eq_imp_length_eq)
  from ct have ct': "c_context_type turn = Ctx_debugging"
    by (simp only: ctx)
  have ex: "\<exists>turn ds.
      conversation_turns (data (logConversationTurn (demo_env ''turn'' 3000) demo_turn boot_world)) =
        conversation_turns (data boot_world) @ [turn] \<and>
      decisions_made (c_extracted_entities turn) \<noteq> [] \<and>
      blockers_identified (c_extracted_entities turn) \<noteq> [] \<and>
      c_context_type turn = Ctx_debugging \<and>
      decisions (data (logConversationTurn (demo_env ''turn'' 3000) demo_turn boot_world)) =
        decisions (data boot_world) @ ds \<and>
      length ds = length (decisions_made (c_extracted_entities turn)) \<and>
      blockers (data (logConversationTurn (demo_env ''turn'' 3000) demo_turn boot_world)) =
        blockers (data boot_world)"
    by (intro exI [of _ turn] exI [of _ ds] conjI t dne bne ct' d len b)
  show ?thesis
    by (intro conjI own kd hd kb hb ctx ex)
qed

text \<open>
  The same exchange evaluated: the turn records the blocker keyword \<open>error\<close>, one
  auxiliary decision is stored, and the store still has no blocker.
\<close>

theorem conversation_blockers_are_not_materialised:
  "map (\<lambda>t. blockers_identified (c_extracted_entities t))
     (conversation_turns (data (logConversationTurn (demo_env ''turn'' 3000) demo_turn boot_world))) =
     [[''error'']] \<and>
   map (\<lambda>t. decisions_made (c_extracted_entities t))
     (conversation_turns (data (logConversationTurn (demo_env ''turn'' 3000) demo_turn boot_world))) =
     [[''decided'']] \<and>
   map decision_type
     (decisions (data (logConversationTurn (demo_env ''turn'' 3000) demo_turn boot_world))) =
     [''conversation_decision''] \<and>
   blockers (data (logConversationTurn (demo_env ''turn'' 3000) demo_turn boot_world)) = []"
  by code_simp


section \<open>Durable writes\<close>

lemma saveData_disk:
  "disk (saveData e w) = (if writable w then Image (data (saveData e w)) else disk w)"
  by (simp add: saveData_def Let_def)

lemma logDecisionInternal_disk:
  "disk (snd (logDecisionInternal e k inp w)) =
     (if writable w then Image (data (snd (logDecisionInternal e k inp w))) else disk w)"
  by (simp add: logDecisionInternal_def Let_def saveData_disk)

lemma log_each_decision_writable [simp]:
  "writable (log_each_decision e k terms w) = writable w"
  by (induction terms arbitrary: k w) simp_all

lemma log_each_decision_disk:
  "disk w = (if writable w then Image (data w) else dsk) \<Longrightarrow>
   disk (log_each_decision e k terms w) =
     (if writable w then Image (data (log_each_decision e k terms w)) else dsk)"
proof (induction terms arbitrary: k w)
  case Nil
  then show ?case by simp
next
  case (Cons t terms)
  show ?case
    using Cons.prems by (simp add: Cons.IH logDecisionInternal_disk)
qed

lemma put_service_disk [simp]: "disk (put_service i s w) = disk w"
  by (simp add: put_service_def)

lemma auto_scaling_writable [simp]: "writable (auto_scaling e i s w) = writable w"
  by (simp add: auto_scaling_def)

lemma auto_scaling_disk_failed: "\<not> writable w \<Longrightarrow> disk (auto_scaling e i s w) = disk w"
  by (simp add: auto_scaling_def logDecisionInternal_disk)

lemma updateServicePerformance_disk:
  "updateServicePerformance e args w = Inr w' \<Longrightarrow>
   disk w' = (if writable w then Image (data w') else disk w)"
  by (auto simp: updateServicePerformance_def saveData_disk auto_scaling_disk_failed
      split: option.splits)

lemma resolveBlocker_disk:
  "resolveBlocker e args w = Inr w' \<Longrightarrow>
   disk w' = (if writable w then Image (data w') else disk w)"
  by (auto simp: resolveBlocker_def saveData_disk split: option.splits)

lemma recordTransaction_disk:
  "disk (recordTransaction e args w) =
     (if writable w then Image (data (recordTransaction e args w)) else disk w)"
  by (simp add: recordTransaction_def Let_def saveData_disk split: option.split)

lemma logConversationTurn_disk:
  "disk (logConversationTurn e args w) =
     (if writable w then Image (data (logConversationTurn e args w)) else disk w)"
proof -
  let ?w1 = "saveData e (w\<lparr>data := (data w)
      \<lparr>conversation_turns := conversation_turns (data w) @ [make_turn e args w]\<rparr>\<rparr>)"
  have w1: "disk ?w1 = (if writable ?w1 then Image (data ?w1) else disk w)"
    by (simp add: saveData_disk)
  have "disk (log_each_decision e 1 ts ?w1) =
          (if writable ?w1 then Image (data (log_each_decision e 1 ts ?w1)) else disk w)" for ts
    by (rule log_each_decision_disk [OF w1])
  then show ?thesis
    using w1 by (simp add: logConversationTurn_def autoCaptureContext_def Let_def)
qed

text \<open>
  Claim C3, as the code has it. Every tool that changes the store ends in \<open>saveData\<close>:
  when it returns normally the whole store has been written, synchronously, by the tool
  itself (the file then holds the store as it is in memory), unless the write failed, which
  is swallowed and leaves the file as it was. This holds for every tool of the dispatcher but
  \<open>auto_capture_context\<close>, which writes only when it logs something. There is no dirty
  flag. The timer's callback writes when more than 30000 ms have passed since the last
  successful write and auto-save is enabled; \<open>stop\<close> writes unconditionally.
\<close>

theorem every_mutating_tool_writes_the_store:
  "((\<forall>trigger context_data. r \<noteq> Auto_capture_context trigger context_data) \<longrightarrow>
      callTool e r w = Inr w' \<longrightarrow>
      disk w' = (if writable w then Image (data w') else disk w)) \<and>
   disk (autoSaveTick e w) =
     (if now e - lastAutoSave w > 30000 \<and> auto_save_enabled (session_metadata (data w)) \<and>
         writable w
      then Image (data (autoSaveTick e w)) else disk w) \<and>
   disk (stop e w) = (if writable w then Image (data (stop e w)) else disk w)"
proof (intro conjI impI)
  assume "\<forall>trigger context_data. r \<noteq> Auto_capture_context trigger context_data"
    and "callTool e r w = Inr w'"
  then show "disk w' = (if writable w then Image (data w') else disk w)"
  proof (cases r)
    case (Update_service_performance args)
    with \<open>callTool e r w = Inr w'\<close> have "updateServicePerformance e args w = Inr w'"
      by (simp add: rethrow_def split: sum.splits)
    then show ?thesis by (rule updateServicePerformance_disk)
  next
    case (Resolve_blocker args)
    with \<open>callTool e r w = Inr w'\<close> have "resolveBlocker e args w = Inr w'"
      by (simp add: rethrow_def split: sum.splits)
    then show ?thesis by (rule resolveBlocker_disk)
  next
    case (Record_transaction args)
    with \<open>callTool e r w = Inr w'\<close> show ?thesis
      using recordTransaction_disk [of e args w] by auto
  next
    case (Log_conversation_turn args)
    with \<open>callTool e r w = Inr w'\<close> show ?thesis
      using logConversationTurn_disk [of e args w] by auto
  next
    case (Save_business_state args)
    with \<open>callTool e r w = Inr w'\<close> show ?thesis
      by (auto simp: saveBusinessState_def Let_def saveData_disk)
  next
    case (Register_service args)
    with \<open>callTool e r w = Inr w'\<close> show ?thesis
      by (auto simp: registerService_def Let_def saveData_disk)
  next
    case (Log_decision args)
    with \<open>callTool e r w = Inr w'\<close> show ?thesis
      by (auto simp: logDecision_def logDecisionInternal_disk)
  next
    case (Record_market_opportunity args)
    with \<open>callTool e r w = Inr w'\<close> show ?thesis
      by (auto simp: recordMarketOpportunity_def Let_def saveData_disk)
  next
    case (Log_technical_discovery args)
    with \<open>callTool e r w = Inr w'\<close> show ?thesis
      by (auto simp: logTechnicalDiscovery_def Let_def saveData_disk)
  next
    case (Log_blocker args)
    with \<open>callTool e r w = Inr w'\<close> show ?thesis
      by (auto simp: logBlocker_def Let_def saveData_disk)
  next
    case (Log_progress_milestone args)
    with \<open>callTool e r w = Inr w'\<close> show ?thesis
      by (auto simp: logProgressMilestone_def Let_def saveData_disk)
  qed simp
next
  show "disk (autoSaveTick e w) =
     (if now e - lastAutoSave w > 30000 \<and> auto_save_enabled (session_metadata (data w)) \<and>
         writable w
      then Image (data (autoSaveTick e w)) else disk w)"
    by (simp add: autoSaveTick_def saveData_disk)
next
  show "disk (stop e w) = (if writable w then Image (data (stop e w)) else disk w)"
    by (simp add: stop_def saveData_disk)
qed


text \<open>The example: registering the service leaves the file equal to the store.\<close>

theorem every_mutating_tool_writes_the_store_witness:
  "writable boot_world \<and>
   callTool (demo_env ''svc'' 1000) (Register_service demo_registration) boot_world =
     Inr demo_service_world \<and>
   disk demo_service_world = Image (data demo_service_world)"
proof -
  have wr: "writable boot_world"
    by code_simp
  have call: "callTool (demo_env ''svc'' 1000) (Register_service demo_registration) boot_world =
     Inr demo_service_world"
    by (simp add: demo_service_world_def)
  have tool: "\<forall>trigger context_data.
      Register_service demo_registration \<noteq> Auto_capture_context trigger context_data"
    by simp
  from every_mutating_tool_writes_the_store
    [of "Register_service demo_registration" "demo_env ''svc'' 1000" boot_world demo_service_world]
    tool call
  have "disk demo_service_world =
      (if writable boot_world then Image (data demo_service_world) else disk boot_world)"
    by blast
  then have d: "disk demo_service_world = Image (data demo_service_world)"
    by (simp only: wr if_True)
  show ?thesis
    by (intro conjI wr call d)
qed

text \<open>
  Registering a service changes the file at once: before the call the image holds no
  service, after it the image holds the new one, and the time of the last write is the time
  of the call.
\<close>

theorem register_service_writes_the_file_itself:
  "callTool (demo_env ''svc'' 1000) (Register_service demo_registration) boot_world =
     Inr demo_service_world \<and>
   (case disk boot_world of Image d \<Rightarrow> map s_name (services d) = [] | _ \<Rightarrow> False) \<and>
   (case disk demo_service_world of
      Image d \<Rightarrow> map s_name (services d) = [''qr-generator'']
    | _ \<Rightarrow> False) \<and>
   lastAutoSave boot_world = 0 \<and>
   lastAutoSave demo_service_world = 1000"
proof -
  have call: "callTool (demo_env ''svc'' 1000) (Register_service demo_registration) boot_world =
     Inr demo_service_world"
    by (simp add: demo_service_world_def)
  have before: "(case disk boot_world of Image d \<Rightarrow> map s_name (services d) = [] | _ \<Rightarrow> False)"
    by code_simp
  have after: "(case disk demo_service_world of
      Image d \<Rightarrow> map s_name (services d) = [''qr-generator'']
    | _ \<Rightarrow> False)"
    by code_simp
  have t0: "lastAutoSave boot_world = 0"
    by code_simp
  have t1: "lastAutoSave demo_service_world = 1000"
    by code_simp
  show ?thesis
    by (intro conjI call before after t0 t1)
qed

end
